theory Spec2Isabelle
  imports Complex_Main "HOL-Library.Log_Nat"
begin

text \<open>
  A shallow embedding of the shared engine of the wallet inventory: the endpoint-failover
  query executor, the token valuation engine and the project balance dispatcher of
  \<^verbatim>\<open>functions.ts\<close>, and the \<^verbatim>\<open>get\<close> of the project handlers. Asynchronous functions
  are modelled by their results: a function that can throw returns a sum, with the error on
  the left; what is written to the console is returned as a list of diagnostics; the price
  cache is passed in and returned. The definitions come first, the properties after them.
\<close>

section \<open>Basic types\<close>

text \<open>
  Addresses, URLs and symbols are JavaScript strings. The supported chains are the seven
  cases of the switch in \<^verbatim>\<open>getChainTokenData\<close>.
\<close>

type_synonym Address = string
type_synonym URL = string

datatype EVMChain = eth | bsc | poly | ftm | avax | one | cronos

definition chainName :: "EVMChain \<Rightarrow> string" where
  "chainName c = (case c of eth \<Rightarrow> ''eth'' | bsc \<Rightarrow> ''bsc'' | poly \<Rightarrow> ''poly'' | ftm \<Rightarrow> ''ftm''
     | avax \<Rightarrow> ''avax'' | one \<Rightarrow> ''one'' | cronos \<Rightarrow> ''cronos'')"

text \<open>
  \<^verbatim>\<open>toLowerCase\<close> and \<^verbatim>\<open>toUpperCase\<close> on the ASCII letters; every other character is
  left as it is (addresses, chain names and symbols are ASCII).
\<close>

definition lowerChar :: "char \<Rightarrow> char" where
  "lowerChar c = (case map_of (zip ''ABCDEFGHIJKLMNOPQRSTUVWXYZ'' ''abcdefghijklmnopqrstuvwxyz'') c of
      Some d \<Rightarrow> d | None \<Rightarrow> c)"

definition upperChar :: "char \<Rightarrow> char" where
  "upperChar c = (case map_of (zip ''abcdefghijklmnopqrstuvwxyz'' ''ABCDEFGHIJKLMNOPQRSTUVWXYZ'') c of
      Some d \<Rightarrow> d | None \<Rightarrow> c)"

definition toLowerCase :: "string \<Rightarrow> string" where
  "toLowerCase s = map lowerChar s"

definition toUpperCase :: "string \<Rightarrow> string" where
  "toUpperCase s = map upperChar s"

section \<open>The endpoint-failover query executor\<close>

text \<open>
  The values a decoded contract call can give: \<^verbatim>\<open>undefined\<close> is the initial value of
  \<^verbatim>\<open>result\<close>; ethers decodes \<^verbatim>\<open>bool\<close> to a boolean, the small unsigned integers
  (such as the \<^verbatim>\<open>uint8\<close> of \<^verbatim>\<open>decimals\<close>) to a number, \<^verbatim>\<open>string\<close> and
  \<^verbatim>\<open>address\<close> to a string, \<^verbatim>\<open>uint256\<close> to a BigNumber object and several outputs to a
  Result array. \<open>truthy\<close> is JavaScript's ToBoolean, which the loop condition
  \<^verbatim>\<open>!result\<close> applies: objects are always truthy, \<^verbatim>\<open>0\<close>, \<^verbatim>\<open>false\<close> and the empty
  string are not.
\<close>

datatype jsval = JUndefined | JBoolean bool | JNumber int | JString string | JBigNumber int
  | JResult "jsval list"

fun truthy :: "jsval \<Rightarrow> bool" where
  "truthy JUndefined = False"
| "truthy (JBoolean b) = b"
| "truthy (JNumber n) = (n \<noteq> 0)"
| "truthy (JString s) = (s \<noteq> [])"
| "truthy (JBigNumber n) = True"
| "truthy (JResult vs) = True"

text \<open>
  One pass through the \<^verbatim>\<open>try\<close> block either throws (transport or decoding failure) or
  assigns the decoded value to \<^verbatim>\<open>result\<close>.
\<close>

datatype 'a attempt = Throws | Returns 'a

datatype diagnostic = ConsoleError string | ConsoleWarn string

definition maxQueryRetries :: nat where
  "maxQueryRetries = 3"

definition ignoredErrors :: "(EVMChain \<times> Address) list" where
  "ignoredErrors = [(poly, ''0x8aaa5e259f74c8114e0a471d9f2adfc66bfe09ed''),
                    (poly, ''0x9dd12421c637689c3fc6e661c9e2f02c2f61b3eb'')]"

text \<open>
  The local variables of \<^verbatim>\<open>query\<close>, with two observers added: \<open>attempts\<close> counts the
  executions of the \<^verbatim>\<open>try\<close> block and \<open>console\<close> collects what is written to the console.
\<close>

record queryState =
  result :: jsval
  errors :: nat
  rpcID :: nat
  attempts :: nat
  console :: "diagnostic list"

text \<open>\<^verbatim>\<open>chains[chain].rpcs[rpcID]\<close>: reading past the end of an array gives \<^verbatim>\<open>undefined\<close>.\<close>

definition nthOpt :: "'a list \<Rightarrow> nat \<Rightarrow> 'a option" where
  "nthOpt xs i = (if i < length xs then Some (xs ! i) else None)"

text \<open>The template literal of the diagnostic; an array is rendered with commas.\<close>

fun joinComma :: "string list \<Rightarrow> string" where
  "joinComma [] = []"
| "joinComma [a] = a"
| "joinComma (a # b # bs) = a @ '','' @ joinComma (b # bs)"

definition queryErrorMessage :: "EVMChain \<Rightarrow> Address \<Rightarrow> string \<Rightarrow> string list \<Rightarrow> string" where
  "queryErrorMessage chain address method args =
     ''Error Calling '' @ method @ ''('' @ joinComma args @ '') on '' @ address
       @ '' (Chain: '' @ toUpperCase (chainName chain) @ '')''"


text \<open>\<^verbatim>\<open>ignoredErrors.find(i => i.chain === chain && i.address === address.toLowerCase())\<close>\<close>

definition isIgnored :: "EVMChain \<Rightarrow> Address \<Rightarrow> bool" where
  "isIgnored chain address =
     (find (\<lambda>i. fst i = chain \<and> snd i = toLowerCase address) ignoredErrors \<noteq> None)"

text \<open>The \<^verbatim>\<open>catch\<close> block of \<^verbatim>\<open>query\<close>.\<close>

definition onCatch ::
  "EVMChain \<Rightarrow> Address \<Rightarrow> string \<Rightarrow> string list \<Rightarrow> URL list \<Rightarrow> queryState \<Rightarrow> queryState" where
  "onCatch chain address method args rpcs s =
     (let s1 = s\<lparr>rpcID := Suc (rpcID s)\<rparr> in
      if rpcID s1 \<ge> length rpcs then
        (let s2 = s1\<lparr>errors := Suc (errors s1)\<rparr> in
         if errors s2 \<ge> maxQueryRetries then
           (if \<not> isIgnored chain address then
              s2\<lparr>console := console s2 @ [ConsoleError (queryErrorMessage chain address method args)]\<rparr>
            else s2)
         else s2\<lparr>rpcID := 0\<rparr>)
      else s1)"

text \<open>
  The \<^verbatim>\<open>while\<close> loop. The outcome of an attempt is given by \<open>call\<close>, from the number of
  the attempt and the endpoint tried. The loop need not end, so the result is an option and
  \<open>None\<close> stands for a call of \<^verbatim>\<open>query\<close> that never returns.
\<close>

partial_function (option) queryLoop ::
  "EVMChain \<Rightarrow> Address \<Rightarrow> string \<Rightarrow> string list \<Rightarrow> URL list \<Rightarrow> (nat \<Rightarrow> URL option \<Rightarrow> jsval attempt)
     \<Rightarrow> queryState \<Rightarrow> queryState option" where
  "queryLoop chain address method args rpcs call s =
     (if \<not> truthy (result s) \<and> errors s < maxQueryRetries then
        (case call (attempts s) (nthOpt rpcs (rpcID s)) of
           Returns v \<Rightarrow>
             queryLoop chain address method args rpcs call
               (s\<lparr>result := v, attempts := Suc (attempts s)\<rparr>)
         | Throws \<Rightarrow>
             queryLoop chain address method args rpcs call
               (onCatch chain address method args rpcs (s\<lparr>attempts := Suc (attempts s)\<rparr>)))
      else Some s)"

text \<open>\<^verbatim>\<open>query\<close> returns the field \<open>result\<close> of the final state.\<close>

definition query ::
  "EVMChain \<Rightarrow> Address \<Rightarrow> string \<Rightarrow> string list \<Rightarrow> URL list \<Rightarrow> (nat \<Rightarrow> URL option \<Rightarrow> jsval attempt)
     \<Rightarrow> queryState option" where
  "query chain address method args rpcs call =
     queryLoop chain address method args rpcs call
       \<lparr>result = JUndefined, errors = 0, rpcID = 0, attempts = 0, console = []\<rparr>"


section \<open>JavaScript numbers\<close>

text \<open>
  A JavaScript number is a finite value, one of the two infinities, or NaN. In the operators
  of this section finite values are taken as exact reals: rounding to 53 bits, overflow of
  finite results and the sign of zero (every zero is +0; all inputs here are non-negative)
  are not modelled. The special values follow IEEE 754, which is what decides where NaN and
  Infinity come from: a non-zero value divided by zero is an infinity and 0 / 0 is NaN.
  The operators that round as binary64 does are in section \<open>Binary64 arithmetic\<close>; a
  property that depends on the rounding is stated with them.
\<close>

datatype jsnum = Num real | Infinity | NegInfinity | NaN

text \<open>The operator \<^verbatim>\<open>/\<close>.\<close>

fun jsDiv :: "jsnum \<Rightarrow> jsnum \<Rightarrow> jsnum" where
  "jsDiv NaN b = NaN"
| "jsDiv a NaN = NaN"
| "jsDiv (Num x) (Num y) =
     (if y \<noteq> 0 then Num (x / y)
      else if x = 0 then NaN
      else if 0 < x then Infinity else NegInfinity)"
| "jsDiv (Num x) Infinity = Num 0"
| "jsDiv (Num x) NegInfinity = Num 0"
| "jsDiv Infinity (Num y) = (if 0 \<le> y then Infinity else NegInfinity)"
| "jsDiv NegInfinity (Num y) = (if 0 \<le> y then NegInfinity else Infinity)"
| "jsDiv Infinity Infinity = NaN"
| "jsDiv Infinity NegInfinity = NaN"
| "jsDiv NegInfinity Infinity = NaN"
| "jsDiv NegInfinity NegInfinity = NaN"

text \<open>The operator \<^verbatim>\<open>*\<close>.\<close>

fun jsMul :: "jsnum \<Rightarrow> jsnum \<Rightarrow> jsnum" where
  "jsMul NaN b = NaN"
| "jsMul a NaN = NaN"
| "jsMul (Num x) (Num y) = Num (x * y)"
| "jsMul (Num x) Infinity = (if x = 0 then NaN else if 0 < x then Infinity else NegInfinity)"
| "jsMul (Num x) NegInfinity = (if x = 0 then NaN else if 0 < x then NegInfinity else Infinity)"
| "jsMul Infinity (Num y) = (if y = 0 then NaN else if 0 < y then Infinity else NegInfinity)"
| "jsMul NegInfinity (Num y) = (if y = 0 then NaN else if 0 < y then NegInfinity else Infinity)"
| "jsMul Infinity Infinity = Infinity"
| "jsMul Infinity NegInfinity = NegInfinity"
| "jsMul NegInfinity Infinity = NegInfinity"
| "jsMul NegInfinity NegInfinity = Infinity"

text \<open>The operator \<^verbatim>\<open>+\<close> on numbers.\<close>

fun jsAdd :: "jsnum \<Rightarrow> jsnum \<Rightarrow> jsnum" where
  "jsAdd NaN b = NaN"
| "jsAdd a NaN = NaN"
| "jsAdd (Num x) (Num y) = Num (x + y)"
| "jsAdd (Num x) Infinity = Infinity"
| "jsAdd (Num x) NegInfinity = NegInfinity"
| "jsAdd Infinity (Num y) = Infinity"
| "jsAdd NegInfinity (Num y) = NegInfinity"
| "jsAdd Infinity Infinity = Infinity"
| "jsAdd Infinity NegInfinity = NaN"
| "jsAdd NegInfinity Infinity = NaN"
| "jsAdd NegInfinity NegInfinity = NegInfinity"

text \<open>\<^verbatim>\<open>10 ** decimals\<close>\<close>

fun pow10 :: "jsnum \<Rightarrow> jsnum" where
  "pow10 (Num x) = Num (10 powr x)"
| "pow10 Infinity = Infinity"
| "pow10 NegInfinity = Num 0"
| "pow10 NaN = NaN"

text \<open>\<^verbatim>\<open>Number.isFinite\<close>: neither NaN nor an infinity.\<close>

fun isFinite :: "jsnum \<Rightarrow> bool" where
  "isFinite (Num x) = True"
| "isFinite Infinity = False"
| "isFinite NegInfinity = False"
| "isFinite NaN = False"

text \<open>
  The numeric reading of a query result that is an unsigned integer (a number or a
  BigNumber) or \<^verbatim>\<open>undefined\<close>. \<^verbatim>\<open>parseInt\<close> turns its argument into a string and reads
  the digits; the operator \<^verbatim>\<open>/\<close> applies ToNumber, which for a BigNumber goes through its
  decimal string as well. Both give NaN on \<^verbatim>\<open>undefined\<close>.
\<close>

definition parseInt :: "nat option \<Rightarrow> jsnum" where
  "parseInt v = (case v of None \<Rightarrow> NaN | Some n \<Rightarrow> Num (real n))"

definition toNumber :: "nat option \<Rightarrow> jsnum" where
  "toNumber v = (case v of None \<Rightarrow> NaN | Some n \<Rightarrow> Num (real n))"

section \<open>Tokens and the known-token catalog\<close>

datatype TokenType = type_nativeToken | type_token | type_lpToken | type_debt | type_xToken

datatype TokenStatus = none | staked | lent | borrowed | unclaimed

text \<open>
  An entry of the per-chain token list, an entry of the fallback logo list, and the data of
  one chain (\<^verbatim>\<open>eth_data\<close>, \<^verbatim>\<open>bsc_data\<close>, ...). The lists themselves are configuration, given
  to the functions below as the record \<open>Catalog\<close>. Field names carry a prefix for their
  record (\<open>td_symbol\<close> is the field \<^verbatim>\<open>symbol\<close> of a \<^verbatim>\<open>TokenData\<close>), since the same
  names are the local variables of the functions.
\<close>

record TokenData =
  td_symbol :: string
  td_address :: Address
  td_decimals :: jsnum
  td_logo :: URL

record LogoData =
  ld_symbol :: string
  ld_logo :: URL

record ChainTokenData =
  ctd_tokens :: "TokenData list"
  ctd_logos :: "LogoData list"

record Catalog =
  eth_data :: ChainTokenData
  bsc_data :: ChainTokenData
  poly_data :: ChainTokenData
  ftm_data :: ChainTokenData
  avax_data :: ChainTokenData
  one_data :: ChainTokenData
  cronos_data :: ChainTokenData

text \<open>
  The token shapes built by the engine. A symbol or an address read from the chain is
  \<^verbatim>\<open>undefined\<close> when the query gave no result, hence the options. The fields every shape
  has are those of \<open>BaseToken\<close>; \<open>Token\<close> is the shape of \<^verbatim>\<open>NativeToken\<close>,
  \<^verbatim>\<open>Token\<close> and \<^verbatim>\<open>DebtToken\<close> alike.
\<close>

record PricedToken =
  pt_symbol :: "string option"
  pt_address :: "Address option"
  pt_balance :: jsnum
  pt_price :: jsnum
  pt_logo :: URL

record BaseToken =
  t_type :: TokenType
  t_chain :: EVMChain
  t_location :: string
  t_status :: TokenStatus
  t_owner :: Address
  t_symbol :: "string option"
  t_address :: Address
  t_balance :: jsnum

record Token = BaseToken +
  t_price :: jsnum
  t_logo :: URL

record LPToken = BaseToken +
  t_token0 :: PricedToken
  t_token1 :: PricedToken

record XToken = BaseToken +
  x_logo :: URL
  x_underlyingToken :: PricedToken

datatype AnyToken = IsToken Token | IsLPToken LPToken | IsXToken XToken

text \<open>What is thrown: a TypeError on reading a property of \<^verbatim>\<open>undefined\<close>, and the
  rejection of a dynamic import of a module that does not exist.\<close>

datatype error = TypeError | ImportError

definition defaultTokenLogo :: URL where
  "defaultTokenLogo = ''https://cdn.jsdelivr.net/gh/atomiclabs/cryptocurrency-icons@d5c68edec1f5eaec59ac77ff2b48144679cebca1/32/icon/generic.png''"

definition defaultAddress :: Address where
  "defaultAddress = ''0xeeeeeeeeeeeeeeeeeeeeeeeeeeeeeeeeeeeeeeee''"

definition getChainTokenData :: "Catalog \<Rightarrow> EVMChain \<Rightarrow> ChainTokenData option" where
  "getChainTokenData cat chain =
     (case chain of
        eth \<Rightarrow> Some (eth_data cat)
      | bsc \<Rightarrow> Some (bsc_data cat)
      | poly \<Rightarrow> Some (poly_data cat)
      | ftm \<Rightarrow> Some (ftm_data cat)
      | avax \<Rightarrow> Some (avax_data cat)
      | one \<Rightarrow> Some (one_data cat)
      | cronos \<Rightarrow> Some (cronos_data cat))"

definition getTokens :: "Catalog \<Rightarrow> EVMChain \<Rightarrow> TokenData list" where
  "getTokens cat chain =
     (case getChainTokenData cat chain of
        Some chainTokenData \<Rightarrow> ctd_tokens chainTokenData
      | None \<Rightarrow> [])"

definition getTokenLogo :: "Catalog \<Rightarrow> EVMChain \<Rightarrow> string option \<Rightarrow> URL" where
  "getTokenLogo cat chain symbol =
     (case getChainTokenData cat chain of
        Some data \<Rightarrow>
          (case find (\<lambda>tk. Some (td_symbol tk) = symbol) (ctd_tokens data) of
             Some trackedToken \<Rightarrow> td_logo trackedToken
           | None \<Rightarrow>
               (case find (\<lambda>i. Some (ld_symbol i) = symbol) (ctd_logos data) of
                  Some entry \<Rightarrow> ld_logo entry
                | None \<Rightarrow> defaultTokenLogo))
      | None \<Rightarrow> defaultTokenLogo)"

definition getTrackedTokenInfo :: "Catalog \<Rightarrow> EVMChain \<Rightarrow> Address \<Rightarrow> TokenData option" where
  "getTrackedTokenInfo cat chain address =
     (case getChainTokenData cat chain of
        Some data \<Rightarrow>
          find (\<lambda>tk. toLowerCase (td_address tk) = toLowerCase address) (ctd_tokens data)
      | None \<Rightarrow> None)"

text \<open>
  The same function called with an address that a query left \<^verbatim>\<open>undefined\<close>: the
  callback of \<^verbatim>\<open>find\<close> evaluates \<^verbatim>\<open>address.toLowerCase()\<close> on the first entry and throws a
  TypeError; on an empty list the callback never runs.
\<close>

definition getTrackedTokenInfoOf ::
  "Catalog \<Rightarrow> EVMChain \<Rightarrow> Address option \<Rightarrow> error + TokenData option" where
  "getTrackedTokenInfoOf cat chain address =
     (case address of
        Some a \<Rightarrow> Inr (getTrackedTokenInfo cat chain a)
      | None \<Rightarrow>
          (case getChainTokenData cat chain of
             Some data \<Rightarrow> (if ctd_tokens data = [] then Inr None else Inl TypeError)
           | None \<Rightarrow> Inr None))"

definition getNativeTokenSymbol :: "EVMChain \<Rightarrow> string" where
  "getNativeTokenSymbol chain =
     (if chain = bsc then ''BNB''
      else if chain = poly then ''MATIC''
      else if chain = cronos then ''CRO''
      else toUpperCase (chainName chain))"

section \<open>The chain, the price resolver and the environment\<close>

text \<open>
  The engine reads the chain through \<^verbatim>\<open>query\<close> only. At this layer a call of
  \<^verbatim>\<open>query(chain, address, abi, method, args)\<close> is taken through the value it returns:
  one field per contract method, giving the decoded value, or \<open>None\<close> when \<^verbatim>\<open>query\<close>
  returns \<^verbatim>\<open>undefined\<close>. The type of each field is the decoded type of the method's
  output in the ABI: \<^verbatim>\<open>symbol\<close> a string, \<^verbatim>\<open>decimals\<close>, \<^verbatim>\<open>totalSupply\<close> and
  \<^verbatim>\<open>balanceOf\<close> an unsigned integer, \<^verbatim>\<open>getReserves\<close> the two reserves,
  \<^verbatim>\<open>token0\<close> and \<^verbatim>\<open>token1\<close> an address, and \<^verbatim>\<open>getPoolTokens\<close> of a vault, for a pool
  id, the arrays \<^verbatim>\<open>tokens\<close> and \<^verbatim>\<open>balances\<close>. An unchanged on-chain state is one and
  the same record. A call of \<^verbatim>\<open>query\<close> that never returns has no value here: the function
  of the engine that makes it does not return either.
\<close>

record Blockchain =
  query_symbol :: "EVMChain \<Rightarrow> Address \<Rightarrow> string option"
  query_decimals :: "EVMChain \<Rightarrow> Address \<Rightarrow> nat option"
  query_totalSupply :: "EVMChain \<Rightarrow> Address \<Rightarrow> nat option"
  query_balanceOf :: "EVMChain \<Rightarrow> Address \<Rightarrow> Address \<Rightarrow> nat option"
  query_getReserves :: "EVMChain \<Rightarrow> Address \<Rightarrow> (nat \<times> nat) option"
  query_token0 :: "EVMChain \<Rightarrow> Address \<Rightarrow> Address option"
  query_token1 :: "EVMChain \<Rightarrow> Address \<Rightarrow> Address option"
  query_getPoolTokens :: "EVMChain \<Rightarrow> Address \<Rightarrow> Address \<Rightarrow> (Address list \<times> nat list) option"

text \<open>The price cache: the last price resolved for a chain and a lowercased address.\<close>

type_synonym PriceCache = "(EVMChain \<times> Address option) \<Rightarrow> jsnum option"

text \<open>
  Modelled from the spec: \<^verbatim>\<open>getTokenPrice\<close> of \<^verbatim>\<open>prices.ts\<close>, which is not among the
  sources. The spec (4.3) gives it a process-wide cache keyed by chain and lowercased
  address: a hit returns the cached price; on a miss the price is computed from the
  external price source (or a composite strategy), here the function \<open>source\<close>, and written
  through to the cache.
\<close>

definition getTokenPrice ::
  "(EVMChain \<Rightarrow> Address option \<Rightarrow> jsnum \<Rightarrow> jsnum) \<Rightarrow> PriceCache \<Rightarrow> EVMChain \<Rightarrow> Address option \<Rightarrow> jsnum
     \<Rightarrow> jsnum \<times> PriceCache" where
  "getTokenPrice source cache chain address decimals =
     (let key = (chain, map_option toLowerCase address) in
      case cache key of
        Some price \<Rightarrow> (price, cache)
      | None \<Rightarrow> (let price = source chain address decimals in (price, cache(key \<mapsto> price))))"

text \<open>What the engine is run against: the token catalog, the chain and the price source.\<close>

record Env =
  catalog :: Catalog
  blockchain :: Blockchain
  priceSource :: "EVMChain \<Rightarrow> Address option \<Rightarrow> jsnum \<Rightarrow> jsnum"

section \<open>The token valuation engine\<close>

text \<open>
  Each function takes the environment and the price cache and returns its token together
  with the cache it leaves. The awaits of one function run one after the other.
\<close>

definition addToken ::
  "Env \<Rightarrow> PriceCache \<Rightarrow> EVMChain \<Rightarrow> string \<Rightarrow> TokenStatus \<Rightarrow> Address \<Rightarrow> jsnum \<Rightarrow> Address
     \<Rightarrow> Token \<times> PriceCache" where
  "addToken env cache chain location status address rawBalance owner =
     (case
        (if toLowerCase address = defaultAddress then
           (let symbol = getNativeTokenSymbol chain
            in (Some symbol, Num 18, getTokenLogo (catalog env) chain (Some symbol)))
         else
           (case getTrackedTokenInfo (catalog env) chain address of
              Some tk \<Rightarrow> (Some (td_symbol tk), td_decimals tk, td_logo tk)
            | None \<Rightarrow>
                (let symbol = query_symbol (blockchain env) chain address;
                     decimals = parseInt (query_decimals (blockchain env) chain address)
                 in (symbol, decimals, getTokenLogo (catalog env) chain symbol))))
      of (symbol, decimals, logo) \<Rightarrow>
        (let balance = jsDiv rawBalance (pow10 decimals) in
         case getTokenPrice (priceSource env) cache chain (Some address) decimals of
           (price, cache') \<Rightarrow>
             (\<lparr>t_type = type_token, t_chain = chain, t_location = location, t_status = status,
               t_owner = owner, t_symbol = symbol, t_address = address, t_balance = balance,
               t_price = price, t_logo = logo\<rparr>, cache')))"

definition addDebtToken ::
  "Env \<Rightarrow> PriceCache \<Rightarrow> EVMChain \<Rightarrow> string \<Rightarrow> Address \<Rightarrow> jsnum \<Rightarrow> Address
     \<Rightarrow> Token \<times> PriceCache" where
  "addDebtToken env cache chain location address rawBalance owner =
     (case
        (if toLowerCase address = defaultAddress then
           (let symbol = getNativeTokenSymbol chain
            in (Some symbol, Num 18, getTokenLogo (catalog env) chain (Some symbol)))
         else
           (case getTrackedTokenInfo (catalog env) chain address of
              Some tk \<Rightarrow> (Some (td_symbol tk), td_decimals tk, td_logo tk)
            | None \<Rightarrow>
                (let symbol = query_symbol (blockchain env) chain address;
                     decimals = parseInt (query_decimals (blockchain env) chain address)
                 in (symbol, decimals, getTokenLogo (catalog env) chain symbol))))
      of (symbol, decimals, logo) \<Rightarrow>
        (let balance = jsDiv rawBalance (pow10 decimals) in
         case getTokenPrice (priceSource env) cache chain (Some address) decimals of
           (price, cache') \<Rightarrow>
             (\<lparr>t_type = type_debt, t_chain = chain, t_location = location, t_status = borrowed,
               t_owner = owner, t_symbol = symbol, t_address = address, t_balance = balance,
               t_price = price, t_logo = logo\<rparr>, cache')))"

definition addTrackedToken ::
  "Env \<Rightarrow> PriceCache \<Rightarrow> EVMChain \<Rightarrow> string \<Rightarrow> TokenStatus \<Rightarrow> TokenData \<Rightarrow> jsnum \<Rightarrow> Address
     \<Rightarrow> Token \<times> PriceCache" where
  "addTrackedToken env cache chain location status tk rawBalance owner =
     (let address = td_address tk;
          symbol = td_symbol tk;
          logo = td_logo tk;
          decimals = td_decimals tk;
          balance = jsDiv rawBalance (pow10 decimals)
      in case getTokenPrice (priceSource env) cache chain (Some address) decimals of
           (price, cache') \<Rightarrow>
             (\<lparr>t_type = type_token, t_chain = chain, t_location = location, t_status = status,
               t_owner = owner, t_symbol = Some symbol, t_address = address, t_balance = balance,
               t_price = price, t_logo = logo\<rparr>, cache'))"

text \<open>
  The block of \<^verbatim>\<open>addLPToken\<close> that finds the symbol and the decimals of a paired token,
  written twice in the source (for \<^verbatim>\<open>token0\<close> and for \<^verbatim>\<open>token1\<close>). When the pair's
  address is \<^verbatim>\<open>undefined\<close> and untracked, \<^verbatim>\<open>query\<close> is called without an address: every
  attempt throws in the contract constructor, and the final lookup in \<^verbatim>\<open>ignoredErrors\<close>
  evaluates \<^verbatim>\<open>address.toLowerCase()\<close> for the entries of its own chain, which are those of
  \<^verbatim>\<open>poly\<close>: there the TypeError leaves \<^verbatim>\<open>query\<close>, elsewhere the result is \<^verbatim>\<open>undefined\<close>.
\<close>

definition pairedTokenInfo ::
  "Blockchain \<Rightarrow> EVMChain \<Rightarrow> Address option \<Rightarrow> TokenData option \<Rightarrow> error + (string option \<times> jsnum)" where
  "pairedTokenInfo q chain addressN trackedTokenN =
     (case trackedTokenN of
        Some tk \<Rightarrow> Inr (Some (td_symbol tk), td_decimals tk)
      | None \<Rightarrow>
          (case addressN of
             Some a \<Rightarrow> Inr (query_symbol q chain a, parseInt (query_decimals q chain a))
           | None \<Rightarrow> (if chain = poly then Inl TypeError else Inr (None, parseInt None))))"

definition addLPToken ::
  "Env \<Rightarrow> PriceCache \<Rightarrow> EVMChain \<Rightarrow> string \<Rightarrow> TokenStatus \<Rightarrow> Address \<Rightarrow> jsnum \<Rightarrow> Address
     \<Rightarrow> (error + LPToken) \<times> PriceCache" where
  "addLPToken env cache chain location status address rawBalance owner =
     (let symbol = query_symbol (blockchain env) chain address;
          decimals = parseInt (query_decimals (blockchain env) chain address);
          balance = jsDiv rawBalance (pow10 decimals);
          lpTokenReserves = query_getReserves (blockchain env) chain address;
          lpTokenSupply = jsDiv (toNumber (query_totalSupply (blockchain env) chain address)) (pow10 decimals);
          address0 = query_token0 (blockchain env) chain address;
          address1 = query_token1 (blockchain env) chain address
      in
      case getTrackedTokenInfoOf (catalog env) chain address0 of
        Inl e \<Rightarrow> (Inl e, cache)
      | Inr trackedToken0 \<Rightarrow>
      (case getTrackedTokenInfoOf (catalog env) chain address1 of
        Inl e \<Rightarrow> (Inl e, cache)
      | Inr trackedToken1 \<Rightarrow>
      (case pairedTokenInfo (blockchain env) chain address0 trackedToken0 of
        Inl e \<Rightarrow> (Inl e, cache)
      | Inr (symbol0, decimals0) \<Rightarrow>
      (case pairedTokenInfo (blockchain env) chain address1 trackedToken1 of
        Inl e \<Rightarrow> (Inl e, cache)
      | Inr (symbol1, decimals1) \<Rightarrow>
      (case lpTokenReserves of
        None \<Rightarrow> (Inl TypeError, cache)
      | Some (reserve0, reserve1) \<Rightarrow>
          (let supply0 = jsDiv (toNumber (Some reserve0)) (pow10 decimals0);
               supply1 = jsDiv (toNumber (Some reserve1)) (pow10 decimals1)
           in
           case getTokenPrice (priceSource env) cache chain address0 decimals0 of
             (price0, cache0) \<Rightarrow>
           (let token0 = \<lparr>pt_symbol = symbol0, pt_address = address0,
                          pt_balance = jsMul supply0 (jsDiv balance lpTokenSupply),
                          pt_price = price0, pt_logo = getTokenLogo (catalog env) chain symbol0\<rparr>
            in
            case getTokenPrice (priceSource env) cache0 chain address1 decimals1 of
              (price1, cache1) \<Rightarrow>
            (let token1 = \<lparr>pt_symbol = symbol1, pt_address = address1,
                           pt_balance = jsMul supply1 (jsDiv balance lpTokenSupply),
                           pt_price = price1, pt_logo = getTokenLogo (catalog env) chain symbol1\<rparr>
             in (Inr \<lparr>t_type = type_lpToken, t_chain = chain, t_location = location,
                      t_status = status, t_owner = owner, t_symbol = symbol, t_address = address,
                      t_balance = balance, t_token0 = token0, t_token1 = token1\<rparr>, cache1)))))))))"

definition addXToken ::
  "Env \<Rightarrow> PriceCache \<Rightarrow> EVMChain \<Rightarrow> string \<Rightarrow> TokenStatus \<Rightarrow> Address \<Rightarrow> jsnum \<Rightarrow> Address
     \<Rightarrow> Address \<Rightarrow> jsnum \<Rightarrow> XToken \<times> PriceCache" where
  "addXToken env cache chain location status address rawBalance owner underlyingAddress underlyingRawBalance =
     (let symbol = query_symbol (blockchain env) chain address;
          decimals = parseInt (query_decimals (blockchain env) chain address);
          balance = jsDiv rawBalance (pow10 decimals);
          logo = getTokenLogo (catalog env) chain symbol
      in
      case
        (case getTrackedTokenInfo (catalog env) chain address of
           Some tk \<Rightarrow> (Some (td_symbol tk), td_decimals tk, td_logo tk)
         | None \<Rightarrow>
             (let underlyingSymbol = query_symbol (blockchain env) chain underlyingAddress;
                  underlyingDecimals = parseInt (query_decimals (blockchain env) chain underlyingAddress)
              in (underlyingSymbol, underlyingDecimals,
                  getTokenLogo (catalog env) chain underlyingSymbol)))
      of (underlyingSymbol, underlyingDecimals, underlyingLogo) \<Rightarrow>
        (case getTokenPrice (priceSource env) cache chain (Some underlyingAddress) underlyingDecimals of
           (price, cache') \<Rightarrow>
             (let underlyingToken =
                    \<lparr>pt_symbol = underlyingSymbol, pt_address = Some underlyingAddress,
                     pt_balance = jsDiv underlyingRawBalance (pow10 underlyingDecimals),
                     pt_price = price, pt_logo = underlyingLogo\<rparr>
              in (\<lparr>t_type = type_xToken, t_chain = chain, t_location = location,
                    t_status = status, t_owner = owner, t_symbol = symbol, t_address = address,
                    t_balance = balance, x_logo = logo, x_underlyingToken = underlyingToken\<rparr>,
                  cache'))))"

definition addTraderJoeToken ::
  "Env \<Rightarrow> PriceCache \<Rightarrow> EVMChain \<Rightarrow> string \<Rightarrow> TokenStatus \<Rightarrow> jsnum \<Rightarrow> Address
     \<Rightarrow> XToken \<times> PriceCache" where
  "addTraderJoeToken env cache chain location status rawBalance owner =
     (let xjoe = ''0x57319d41F71E81F3c65F2a47CA4e001EbAFd4F33'';
          joe = ''0x6e84a6216eA6dACC71eE8E6b0a5B7322EEbC0fDd'';
          joeStaked = parseInt (query_balanceOf (blockchain env) chain joe xjoe);
          xjoeSupply = parseInt (query_totalSupply (blockchain env) chain xjoe)
      in addXToken env cache chain location status xjoe rawBalance owner joe
           (jsMul rawBalance (jsDiv joeStaked xjoeSupply)))"

text \<open>
  The \<^verbatim>\<open>for\<close> loop of \<^verbatim>\<open>addBalancerLikeToken\<close> over the indices of
  \<^verbatim>\<open>poolInfo.tokens\<close>, carrying \<^verbatim>\<open>priceSum\<close> and the price cache.
\<close>

fun sumPoolPrices ::
  "Env \<Rightarrow> EVMChain \<Rightarrow> Address list \<Rightarrow> nat list \<Rightarrow> nat list \<Rightarrow> jsnum \<times> PriceCache
     \<Rightarrow> jsnum \<times> PriceCache" where
  "sumPoolPrices env chain poolTokens poolBalances [] (priceSum, cache) = (priceSum, cache)"
| "sumPoolPrices env chain poolTokens poolBalances (i # rest) (priceSum, cache) =
     (let tokenDecimals = parseInt (query_decimals (blockchain env) chain (poolTokens ! i)) in
      case getTokenPrice (priceSource env) cache chain (Some (poolTokens ! i)) tokenDecimals of
        (tokenPrice, cache') \<Rightarrow>
          sumPoolPrices env chain poolTokens poolBalances rest
            (jsAdd priceSum
               (jsMul (jsDiv (parseInt (nthOpt poolBalances i)) (pow10 tokenDecimals)) tokenPrice),
             cache'))"

text \<open>
  \<^verbatim>\<open>addBalancerLikeToken\<close>. Reading \<^verbatim>\<open>poolInfo.tokens\<close> of an \<^verbatim>\<open>undefined\<close>
  \<^verbatim>\<open>poolInfo\<close> throws a TypeError. The last component of the result is what the function
  itself writes to the console: it has no console statement on any path.
\<close>

definition addBalancerLikeToken ::
  "Env \<Rightarrow> PriceCache \<Rightarrow> EVMChain \<Rightarrow> string \<Rightarrow> TokenStatus \<Rightarrow> Address \<Rightarrow> jsnum \<Rightarrow> Address
     \<Rightarrow> Address \<Rightarrow> Address \<Rightarrow> (error + AnyToken) \<times> PriceCache \<times> diagnostic list" where
  "addBalancerLikeToken env cache chain location status address rawBalance owner poolID vault =
     (let poolInfo = query_getPoolTokens (blockchain env) chain vault poolID;
          symbol = query_symbol (blockchain env) chain address;
          decimals = parseInt (query_decimals (blockchain env) chain address);
          balance = jsDiv rawBalance (pow10 decimals);
          lpTokenSupply = parseInt (query_totalSupply (blockchain env) chain address)
      in
      case poolInfo of
        None \<Rightarrow> (Inl TypeError, cache, [])
      | Some (poolTokens, poolBalances) \<Rightarrow>
          if length poolTokens > 2 then
            (let logo = getTokenLogo (catalog env) chain symbol in
             case sumPoolPrices env chain poolTokens poolBalances [0..<length poolTokens] (Num 0, cache) of
               (priceSum, cache') \<Rightarrow>
                 (let price = jsDiv priceSum (jsDiv lpTokenSupply (pow10 decimals))
                  in (Inr (IsToken
                        \<lparr>t_type = type_token, t_chain = chain, t_location = location,
                         t_status = status, t_owner = owner, t_symbol = symbol, t_address = address,
                         t_balance = balance, t_price = price, t_logo = logo\<rparr>), cache', [])))
          else if length poolTokens = 2 then
            (let address0 = poolTokens ! 0;
                 address1 = poolTokens ! 1;
                 symbol0 = query_symbol (blockchain env) chain address0;
                 symbol1 = query_symbol (blockchain env) chain address1;
                 decimals0 = parseInt (query_decimals (blockchain env) chain address0);
                 decimals1 = parseInt (query_decimals (blockchain env) chain address1)
             in
             case getTokenPrice (priceSource env) cache chain (Some address0) decimals0 of
               (price0, cache0) \<Rightarrow>
             (let token0 = \<lparr>pt_symbol = symbol0, pt_address = Some address0,
                            pt_balance = jsDiv (jsMul (parseInt (nthOpt poolBalances 0))
                                                  (jsDiv balance lpTokenSupply)) (pow10 decimals0),
                            pt_price = price0, pt_logo = getTokenLogo (catalog env) chain symbol0\<rparr>
              in
              case getTokenPrice (priceSource env) cache0 chain (Some address1) decimals1 of
                (price1, cache1) \<Rightarrow>
              (let token1 = \<lparr>pt_symbol = symbol1, pt_address = Some address1,
                             pt_balance = jsDiv (jsMul (parseInt (nthOpt poolBalances 1))
                                                   (jsDiv balance lpTokenSupply)) (pow10 decimals1),
                             pt_price = price1, pt_logo = getTokenLogo (catalog env) chain symbol1\<rparr>
               in (Inr (IsLPToken
                     \<lparr>t_type = type_lpToken, t_chain = chain, t_location = location,
                      t_status = status, t_owner = owner, t_symbol = symbol, t_address = address,
                      t_balance = balance, t_token0 = token0, t_token1 = token1\<rparr>), cache1, []))))
          else
            (Inr (IsToken
               \<lparr>t_type = type_token, t_chain = chain, t_location = location, t_status = none,
                t_owner = owner, t_symbol = Some ''???'', t_address = address, t_balance = Num 0,
                t_price = Num 0, t_logo = defaultTokenLogo\<rparr>), cache, []))"

section \<open>Curve tokens\<close>

text \<open>
  The contract methods that only \<^verbatim>\<open>addCurveToken\<close> reads, taken like those of
  \<open>Blockchain\<close> through the value \<^verbatim>\<open>query\<close> returns. The registry methods take the
  registry and their argument, \<^verbatim>\<open>coins\<close>, \<^verbatim>\<open>underlying_coins\<close> and \<^verbatim>\<open>balances\<close> the
  contract and an index.
\<close>

record CurveQueries =
  query_get_pool_from_lp_token :: "EVMChain \<Rightarrow> Address \<Rightarrow> Address \<Rightarrow> Address option"
  query_get_underlying_coins :: "EVMChain \<Rightarrow> Address \<Rightarrow> Address \<Rightarrow> Address list option"
  query_get_underlying_balances :: "EVMChain \<Rightarrow> Address \<Rightarrow> Address \<Rightarrow> nat list option"
  query_get_virtual_price_from_lp_token :: "EVMChain \<Rightarrow> Address \<Rightarrow> Address \<Rightarrow> nat option"
  query_minter :: "EVMChain \<Rightarrow> Address \<Rightarrow> Address option"
  query_get_virtual_price :: "EVMChain \<Rightarrow> Address \<Rightarrow> nat option"
  query_coins :: "EVMChain \<Rightarrow> Address \<Rightarrow> nat \<Rightarrow> Address option"
  query_underlying_coins :: "EVMChain \<Rightarrow> Address \<Rightarrow> nat \<Rightarrow> Address option"
  query_balances :: "EVMChain \<Rightarrow> Address \<Rightarrow> nat \<Rightarrow> nat option"
  query_UNDERLYING_ASSET_ADDRESS :: "EVMChain \<Rightarrow> Address \<Rightarrow> Address option"

definition zero :: Address where
  "zero = ''0x0000000000000000000000000000000000000000''"

text \<open>
  A query on a contract address that an earlier query may have left \<^verbatim>\<open>undefined\<close>.
  Without an address every attempt throws, and the result is \<^verbatim>\<open>undefined\<close>, except on
  \<^verbatim>\<open>poly\<close>, where the lookup in \<^verbatim>\<open>ignoredErrors\<close> throws a TypeError
  (see \<open>pairedTokenInfo\<close>).
\<close>

definition queryAt :: "EVMChain \<Rightarrow> Address option \<Rightarrow> (Address \<Rightarrow> 'a option) \<Rightarrow> error + 'a option" where
  "queryAt chain contract method =
     (case contract of
        Some a \<Rightarrow> Inr (method a)
      | None \<Rightarrow> (if chain = poly then Inl TypeError else Inr None))"

text \<open>Sequencing of steps that may throw.\<close>

definition andThen :: "error + 'a \<Rightarrow> ('a \<Rightarrow> error + 'b) \<Rightarrow> error + 'b" where
  "andThen m f = (case m of Inl e \<Rightarrow> Inl e | Inr x \<Rightarrow> f x)"

text \<open>The fallback at the end of \<^verbatim>\<open>addCurveToken\<close>: one warning and the placeholder token.\<close>

definition unidentifiedCurveToken ::
  "PriceCache \<Rightarrow> EVMChain \<Rightarrow> string \<Rightarrow> Address \<Rightarrow> Address
     \<Rightarrow> (error + AnyToken) \<times> PriceCache \<times> diagnostic list" where
  "unidentifiedCurveToken cache chain location address owner =
     (Inr (IsToken
        \<lparr>t_type = type_token, t_chain = chain, t_location = location, t_status = none,
         t_owner = owner, t_symbol = Some ''???'', t_address = address, t_balance = Num 0,
         t_price = Num 0, t_logo = defaultTokenLogo\<rparr>),
      cache, [ConsoleWarn (''Unidentified Curve Token: '' @ address)])"

text \<open>The local function \<^verbatim>\<open>getPrice\<close> of the Ethereum branch, which redirects three
  synthetic assets to the price of another address.\<close>

definition getPrice ::
  "Env \<Rightarrow> PriceCache \<Rightarrow> EVMChain \<Rightarrow> Address \<Rightarrow> jsnum \<Rightarrow> jsnum \<times> PriceCache" where
  "getPrice env cache chain address decimals =
     (if toLowerCase address = toLowerCase ''0xbBC455cb4F1B9e4bFC4B73970d360c8f032EfEE6'' then
        getTokenPrice (priceSource env) cache chain (Some ''0x514910771af9ca656af840dff83e8264ecf986ca'') decimals
      else if toLowerCase address = toLowerCase ''0xfE18be6b3Bd88A2D2A7f928d00292E7a9963CfC6'' then
        getTokenPrice (priceSource env) cache chain (Some ''0x2260fac5e5542a773aa44fbcfedf7c193bc2c599'') decimals
      else if toLowerCase address = toLowerCase ''0xd71ecff9342a5ced620049e616c5035f1db98620'' then
        getTokenPrice (priceSource env) cache chain (Some ''0xdb25f211ab05b1c97d595516f45794528a807ad8'') decimals
      else getTokenPrice (priceSource env) cache chain (Some address) decimals)"

text \<open>The \<^verbatim>\<open>for\<close> loop of the Ethereum branch for three or more assets.\<close>

fun sumCurvePrices ::
  "Env \<Rightarrow> EVMChain \<Rightarrow> Address list \<Rightarrow> nat list \<Rightarrow> nat list \<Rightarrow> jsnum \<times> PriceCache
     \<Rightarrow> jsnum \<times> PriceCache" where
  "sumCurvePrices env chain coins reserves [] (price, cache) = (price, cache)"
| "sumCurvePrices env chain coins reserves (i # rest) (price, cache) =
     (let tokenDecimals = parseInt (query_decimals (blockchain env) chain (coins ! i)) in
      case getPrice env cache chain (coins ! i) tokenDecimals of
        (tokenPrice, cache') \<Rightarrow>
          sumCurvePrices env chain coins reserves rest
            (jsAdd price
               (jsMul (jsDiv (parseInt (nthOpt reserves i)) (pow10 tokenDecimals)) tokenPrice),
             cache'))"

text \<open>
  The Ethereum branch. \<^verbatim>\<open>.filter\<close> on an \<^verbatim>\<open>undefined\<close> query result throws a TypeError;
  a registry method called with an \<^verbatim>\<open>undefined\<close> pool address gives \<^verbatim>\<open>undefined\<close>. The
  result is \<open>None\<close> when neither shape applies and control falls through to the end of the
  function.
\<close>

definition addCurveTokenEth ::
  "Env \<Rightarrow> CurveQueries \<Rightarrow> PriceCache \<Rightarrow> string \<Rightarrow> TokenStatus \<Rightarrow> Address \<Rightarrow> jsnum \<Rightarrow> Address
     \<Rightarrow> ((error + AnyToken) \<times> PriceCache) option" where
  "addCurveTokenEth env cq cache location status address rawBalance owner =
     (let chain = eth;
          registry = ''0x90E00ACe148ca3b23Ac1bC8C240C2a7Dd9c2d7f5'';
          decimals = parseInt (query_decimals (blockchain env) chain address);
          balance = jsDiv rawBalance (pow10 decimals);
          symbol = query_symbol (blockchain env) chain address;
          lpTokenSupply = jsDiv (toNumber (query_totalSupply (blockchain env) chain address)) (pow10 decimals);
          poolAddress = query_get_pool_from_lp_token cq chain registry address
      in
      case Option.bind poolAddress (query_get_underlying_coins cq chain registry) of
        None \<Rightarrow> Some (Inl TypeError, cache)
      | Some underlyingCoins \<Rightarrow>
      (case Option.bind poolAddress (query_get_underlying_balances cq chain registry) of
        None \<Rightarrow> Some (Inl TypeError, cache)
      | Some underlyingBalances \<Rightarrow>
          (let coins = filter (\<lambda>tk. tk \<noteq> zero) underlyingCoins;
               reserves = filter (\<lambda>b. b \<noteq> 0) underlyingBalances;
               multiplier = jsDiv (parseInt (query_get_virtual_price_from_lp_token cq chain registry address))
                              (pow10 decimals)
           in
           if length coins > 2 then
             (let logo = getTokenLogo (catalog env) chain symbol in
              case sumCurvePrices env chain coins reserves [0..<length coins] (Num 0, cache) of
                (priceSum, cache') \<Rightarrow>
                  (let price = jsMul (jsDiv priceSum lpTokenSupply) multiplier
                   in Some (Inr (IsToken
                        \<lparr>t_type = type_token, t_chain = chain, t_location = location,
                         t_status = status, t_owner = owner, t_symbol = symbol, t_address = address,
                         t_balance = balance, t_price = price, t_logo = logo\<rparr>), cache')))
           else if length coins = 2 then
             (let address0 = coins ! 0;
                  address1 = coins ! 1
              in
              case (if toLowerCase (coins ! 0) = defaultAddress then (Num 18, Some ''ETH'')
                    else (parseInt (query_decimals (blockchain env) chain address0),
                          query_symbol (blockchain env) chain address0)) of
                (decimals0, symbol0) \<Rightarrow>
              (case (if toLowerCase (coins ! 1) = defaultAddress then (Num 18, Some ''ETH'')
                    else (parseInt (query_decimals (blockchain env) chain address1),
                          query_symbol (blockchain env) chain address1)) of
                (decimals1, symbol1) \<Rightarrow>
              (case getTokenPrice (priceSource env) cache chain (Some address0) decimals0 of
                (price0, cache0) \<Rightarrow>
              (let token0 = \<lparr>pt_symbol = symbol0, pt_address = Some address0,
                             pt_balance = jsMul (jsDiv (parseInt (nthOpt reserves 0)) (pow10 (Num 18)))
                                            (jsDiv balance lpTokenSupply),
                             pt_price = price0, pt_logo = getTokenLogo (catalog env) chain symbol0\<rparr>
               in
               case getTokenPrice (priceSource env) cache0 chain (Some address1) decimals1 of
                 (price1, cache1) \<Rightarrow>
               (let token1 = \<lparr>pt_symbol = symbol1, pt_address = Some address1,
                              pt_balance = jsMul (jsDiv (parseInt (nthOpt reserves 1)) (pow10 (Num 18)))
                                             (jsDiv balance lpTokenSupply),
                              pt_price = price1, pt_logo = getTokenLogo (catalog env) chain symbol1\<rparr>
                in Some (Inr (IsLPToken
                      \<lparr>t_type = type_lpToken, t_chain = chain, t_location = location,
                       t_status = status, t_owner = owner, t_symbol = symbol, t_address = address,
                       t_balance = balance, t_token0 = token0, t_token1 = token1\<rparr>), cache1))))))
           else None)))"

text \<open>
  The branches of the other chains come in a few shapes, each written out in the source for
  every pool it applies to. A token priced by the virtual price of its pool: am3CRV on
  \<^verbatim>\<open>poly\<close> and \<^verbatim>\<open>avax\<close> and g3CRV on \<^verbatim>\<open>ftm\<close>, where the pool is the \<^verbatim>\<open>minter\<close> of
  the token.
\<close>

definition curveVirtualPriceToken ::
  "Env \<Rightarrow> CurveQueries \<Rightarrow> PriceCache \<Rightarrow> EVMChain \<Rightarrow> string \<Rightarrow> TokenStatus \<Rightarrow> Address \<Rightarrow> Address
     \<Rightarrow> string option \<Rightarrow> jsnum \<Rightarrow> jsnum \<Rightarrow> (error + AnyToken) \<times> PriceCache" where
  "curveVirtualPriceToken env cq cache chain location status address owner symbol decimals balance =
     (let logo = getTokenLogo (catalog env) chain symbol;
          minter = query_minter cq chain address
      in
      case queryAt chain minter (query_get_virtual_price cq chain) of
        Inl e \<Rightarrow> (Inl e, cache)
      | Inr virtualPrice \<Rightarrow>
          (let price = jsDiv (parseInt virtualPrice) (pow10 decimals)
           in (Inr (IsToken
                 \<lparr>t_type = type_token, t_chain = chain, t_location = location, t_status = status,
                  t_owner = owner, t_symbol = symbol, t_address = address, t_balance = balance,
                  t_price = price, t_logo = logo\<rparr>), cache)))"

text \<open>
  A pair read from a pool: btcCRV on \<^verbatim>\<open>poly\<close> and \<^verbatim>\<open>avax\<close> (the pool is the minter, its
  tokens are \<^verbatim>\<open>underlying_coins\<close>), btcCRV on \<^verbatim>\<open>ftm\<close> (the pool is the minter, its tokens
  are \<^verbatim>\<open>coins\<close>) and the 2pool on \<^verbatim>\<open>ftm\<close> (the pool is the token itself, its tokens are
  \<^verbatim>\<open>coins\<close>). The argument \<open>pool\<close> is the pool as the branch found it and \<open>coin\<close>
  the method that gives its tokens.
\<close>

definition curvePairToken ::
  "Env \<Rightarrow> CurveQueries \<Rightarrow> PriceCache \<Rightarrow> EVMChain \<Rightarrow> string \<Rightarrow> TokenStatus \<Rightarrow> Address \<Rightarrow> Address
     \<Rightarrow> string option \<Rightarrow> jsnum \<Rightarrow> jsnum \<Rightarrow> Address option \<Rightarrow> (Address \<Rightarrow> nat \<Rightarrow> Address option)
     \<Rightarrow> (error + AnyToken) \<times> PriceCache" where
  "curvePairToken env cq cache chain location status address owner symbol decimals balance pool coin =
     (let lpTokenSupply = jsDiv (toNumber (query_totalSupply (blockchain env) chain address)) (pow10 decimals)
      in
      case
        andThen (queryAt chain pool (\<lambda>p. coin p 0)) (\<lambda>address0.
        andThen (queryAt chain pool (\<lambda>p. coin p 1)) (\<lambda>address1.
        andThen (queryAt chain address0 (query_symbol (blockchain env) chain)) (\<lambda>symbol0.
        andThen (queryAt chain address1 (query_symbol (blockchain env) chain)) (\<lambda>symbol1.
        andThen (queryAt chain address0 (query_decimals (blockchain env) chain)) (\<lambda>dec0.
        andThen (queryAt chain address1 (query_decimals (blockchain env) chain)) (\<lambda>dec1.
        andThen (queryAt chain pool (\<lambda>p. query_balances cq chain p 0)) (\<lambda>balance0.
        andThen (queryAt chain pool (\<lambda>p. query_balances cq chain p 1)) (\<lambda>balance1.
          Inr (address0, address1, symbol0, symbol1, parseInt dec0, parseInt dec1,
               jsDiv (toNumber balance0) (pow10 decimals),
               jsDiv (toNumber balance1) (pow10 decimals))))))))))
      of
        Inl e \<Rightarrow> (Inl e, cache)
      | Inr (address0, address1, symbol0, symbol1, decimals0, decimals1, supply0, supply1) \<Rightarrow>
          (case getTokenPrice (priceSource env) cache chain address0 decimals0 of
             (price0, cache0) \<Rightarrow>
           (let token0 = \<lparr>pt_symbol = symbol0, pt_address = address0,
                          pt_balance = jsDiv (jsMul supply0 (jsDiv balance lpTokenSupply)) (pow10 decimals0),
                          pt_price = price0, pt_logo = getTokenLogo (catalog env) chain symbol0\<rparr>
            in
            case getTokenPrice (priceSource env) cache0 chain address1 decimals1 of
              (price1, cache1) \<Rightarrow>
            (let token1 = \<lparr>pt_symbol = symbol1, pt_address = address1,
                           pt_balance = jsDiv (jsMul supply1 (jsDiv balance lpTokenSupply)) (pow10 decimals1),
                           pt_price = price1, pt_logo = getTokenLogo (catalog env) chain symbol1\<rparr>
             in (Inr (IsLPToken
                   \<lparr>t_type = type_lpToken, t_chain = chain, t_location = location,
                    t_status = status, t_owner = owner, t_symbol = symbol, t_address = address,
                    t_balance = balance, t_token0 = token0, t_token1 = token1\<rparr>), cache1)))))"

text \<open>
  A token of three assets priced from the balances of its pool. For crvUSDBTCETH on
  \<^verbatim>\<open>poly\<close> and \<^verbatim>\<open>avax\<close> (\<open>wrapped = True\<close>) the first coin is itself a Curve token,
  priced by the virtual price of its minter with 18 decimals, and the other two are wrappers
  of their \<^verbatim>\<open>UNDERLYING_ASSET_ADDRESS\<close>; for crv3crypto on \<^verbatim>\<open>ftm\<close>
  (\<open>wrapped = False\<close>) the three coins are priced directly.
\<close>

definition curveTricryptoToken ::
  "Env \<Rightarrow> CurveQueries \<Rightarrow> PriceCache \<Rightarrow> EVMChain \<Rightarrow> string \<Rightarrow> TokenStatus \<Rightarrow> Address \<Rightarrow> Address
     \<Rightarrow> string option \<Rightarrow> jsnum \<Rightarrow> jsnum \<Rightarrow> bool \<Rightarrow> (error + AnyToken) \<times> PriceCache" where
  "curveTricryptoToken env cq cache chain location status address owner symbol decimals balance wrapped =
     (let logo = getTokenLogo (catalog env) chain symbol;
          lpTokenSupply = jsDiv (toNumber (query_totalSupply (blockchain env) chain address)) (pow10 decimals);
          minter = query_minter cq chain address
      in
      if wrapped then
        (case
           andThen (queryAt chain minter (query_get_virtual_price cq chain)) (\<lambda>virtualPrice.
           andThen (queryAt chain minter (\<lambda>p. query_coins cq chain p 0)) (\<lambda>address0.
           andThen (queryAt chain minter (\<lambda>p. query_coins cq chain p 1)) (\<lambda>address1.
           andThen (queryAt chain minter (\<lambda>p. query_coins cq chain p 2)) (\<lambda>address2.
           andThen (queryAt chain address0 (query_minter cq chain)) (\<lambda>token0.
           andThen (queryAt chain address1 (query_UNDERLYING_ASSET_ADDRESS cq chain)) (\<lambda>token1.
           andThen (queryAt chain address2 (query_UNDERLYING_ASSET_ADDRESS cq chain)) (\<lambda>token2.
           andThen (queryAt chain token1 (query_decimals (blockchain env) chain)) (\<lambda>dec1.
           andThen (queryAt chain token2 (query_decimals (blockchain env) chain)) (\<lambda>dec2.
           andThen (queryAt chain minter (\<lambda>p. query_balances cq chain p 0)) (\<lambda>balance0.
           andThen (queryAt chain minter (\<lambda>p. query_balances cq chain p 1)) (\<lambda>balance1.
           andThen (queryAt chain minter (\<lambda>p. query_balances cq chain p 2)) (\<lambda>balance2.
           andThen (queryAt chain token0 (query_get_virtual_price cq chain)) (\<lambda>virtualPrice0.
             Inr (jsDiv (parseInt virtualPrice) (pow10 decimals), token1, token2,
                  parseInt dec1, parseInt dec2,
                  jsDiv (parseInt balance0) (pow10 (Num 18)),
                  jsDiv (parseInt balance1) (pow10 (parseInt dec1)),
                  jsDiv (parseInt balance2) (pow10 (parseInt dec2)),
                  jsDiv (parseInt virtualPrice0) (pow10 (Num 18))))))))))))))))
         of
           Inl e \<Rightarrow> (Inl e, cache)
         | Inr (multiplier, token1, token2, decimals1, decimals2, supply0, supply1, supply2, price0) \<Rightarrow>
             (case getTokenPrice (priceSource env) cache chain token1 decimals1 of
                (price1, cache1) \<Rightarrow>
              (case getTokenPrice (priceSource env) cache1 chain token2 decimals2 of
                (price2, cache2) \<Rightarrow>
              (let price = jsMul multiplier
                     (jsDiv (jsAdd (jsAdd (jsMul supply0 price0) (jsMul supply1 price1)) (jsMul supply2 price2))
                        lpTokenSupply)
               in (Inr (IsToken
                     \<lparr>t_type = type_token, t_chain = chain, t_location = location, t_status = status,
                      t_owner = owner, t_symbol = symbol, t_address = address, t_balance = balance,
                      t_price = price, t_logo = logo\<rparr>), cache2)))))
      else
        (case
           andThen (queryAt chain minter (query_get_virtual_price cq chain)) (\<lambda>virtualPrice.
           andThen (queryAt chain minter (\<lambda>p. query_coins cq chain p 0)) (\<lambda>token0.
           andThen (queryAt chain minter (\<lambda>p. query_coins cq chain p 1)) (\<lambda>token1.
           andThen (queryAt chain minter (\<lambda>p. query_coins cq chain p 2)) (\<lambda>token2.
           andThen (queryAt chain token0 (query_decimals (blockchain env) chain)) (\<lambda>dec0.
           andThen (queryAt chain token1 (query_decimals (blockchain env) chain)) (\<lambda>dec1.
           andThen (queryAt chain token2 (query_decimals (blockchain env) chain)) (\<lambda>dec2.
           andThen (queryAt chain minter (\<lambda>p. query_balances cq chain p 0)) (\<lambda>balance0.
           andThen (queryAt chain minter (\<lambda>p. query_balances cq chain p 1)) (\<lambda>balance1.
           andThen (queryAt chain minter (\<lambda>p. query_balances cq chain p 2)) (\<lambda>balance2.
             Inr (jsDiv (parseInt virtualPrice) (pow10 decimals), token0, token1, token2,
                  parseInt dec0, parseInt dec1, parseInt dec2,
                  jsDiv (parseInt balance0) (pow10 (parseInt dec0)),
                  jsDiv (parseInt balance1) (pow10 (parseInt dec1)),
                  jsDiv (parseInt balance2) (pow10 (parseInt dec2)))))))))))))
         of
           Inl e \<Rightarrow> (Inl e, cache)
         | Inr (multiplier, token0, token1, token2, decimals0, decimals1, decimals2,
                supply0, supply1, supply2) \<Rightarrow>
             (case getTokenPrice (priceSource env) cache chain token0 decimals0 of
                (price0, cache0) \<Rightarrow>
              (case getTokenPrice (priceSource env) cache0 chain token1 decimals1 of
                (price1, cache1) \<Rightarrow>
              (case getTokenPrice (priceSource env) cache1 chain token2 decimals2 of
                (price2, cache2) \<Rightarrow>
              (let price = jsMul multiplier
                     (jsDiv (jsAdd (jsAdd (jsMul supply0 price0) (jsMul supply1 price1)) (jsMul supply2 price2))
                        lpTokenSupply)
               in (Inr (IsToken
                     \<lparr>t_type = type_token, t_chain = chain, t_location = location, t_status = status,
                      t_owner = owner, t_symbol = symbol, t_address = address, t_balance = balance,
                      t_price = price, t_logo = logo\<rparr>), cache2)))))))"

text \<open>
  crvEURTUSD on \<^verbatim>\<open>poly\<close>: the first coin is priced directly and the second, a Curve token,
  by the virtual price of its minter. The query for that virtual price comes after the first
  price was fetched, so a TypeError there leaves the cache as the first price left it.
\<close>

definition curveEurtUsdToken ::
  "Env \<Rightarrow> CurveQueries \<Rightarrow> PriceCache \<Rightarrow> EVMChain \<Rightarrow> string \<Rightarrow> TokenStatus \<Rightarrow> Address \<Rightarrow> Address
     \<Rightarrow> string option \<Rightarrow> jsnum \<Rightarrow> jsnum \<Rightarrow> (error + AnyToken) \<times> PriceCache" where
  "curveEurtUsdToken env cq cache chain location status address owner symbol decimals balance =
     (let logo = getTokenLogo (catalog env) chain symbol;
          lpTokenSupply = jsDiv (toNumber (query_totalSupply (blockchain env) chain address)) (pow10 decimals);
          minter = query_minter cq chain address
      in
      case
        andThen (queryAt chain minter (query_get_virtual_price cq chain)) (\<lambda>virtualPrice.
        andThen (queryAt chain minter (\<lambda>p. query_coins cq chain p 0)) (\<lambda>token0.
        andThen (queryAt chain minter (\<lambda>p. query_coins cq chain p 1)) (\<lambda>address1.
        andThen (queryAt chain address1 (query_minter cq chain)) (\<lambda>token1.
        andThen (queryAt chain token0 (query_decimals (blockchain env) chain)) (\<lambda>dec0.
        andThen (queryAt chain minter (\<lambda>p. query_balances cq chain p 0)) (\<lambda>balance0.
        andThen (queryAt chain minter (\<lambda>p. query_balances cq chain p 1)) (\<lambda>balance1.
          Inr (jsDiv (parseInt virtualPrice) (pow10 decimals), token0, token1, parseInt dec0,
               jsDiv (parseInt balance0) (pow10 (parseInt dec0)),
               jsDiv (parseInt balance1) (pow10 (Num 18))))))))))
      of
        Inl e \<Rightarrow> (Inl e, cache)
      | Inr (multiplier, token0, token1, decimals0, supply0, supply1) \<Rightarrow>
          (case getTokenPrice (priceSource env) cache chain token0 decimals0 of
             (price0, cache0) \<Rightarrow>
           (case queryAt chain token1 (query_get_virtual_price cq chain) of
              Inl e \<Rightarrow> (Inl e, cache0)
            | Inr virtualPrice1 \<Rightarrow>
                (let price1 = jsDiv (parseInt virtualPrice1) (pow10 (Num 18));
                     price = jsMul multiplier
                       (jsDiv (jsAdd (jsMul supply0 price0) (jsMul supply1 price1)) lpTokenSupply)
                 in (Inr (IsToken
                       \<lparr>t_type = type_token, t_chain = chain, t_location = location, t_status = status,
                        t_owner = owner, t_symbol = symbol, t_address = address, t_balance = balance,
                        t_price = price, t_logo = logo\<rparr>), cache0)))))"

text \<open>fUSDT on \<^verbatim>\<open>ftm\<close>: the logo is looked up from the symbol read on the chain, before
  the symbol is replaced by \<^verbatim>\<open>fUSDTCRV\<close>.\<close>

definition curveFusdtToken ::
  "Env \<Rightarrow> CurveQueries \<Rightarrow> PriceCache \<Rightarrow> EVMChain \<Rightarrow> string \<Rightarrow> TokenStatus \<Rightarrow> Address \<Rightarrow> Address
     \<Rightarrow> string option \<Rightarrow> jsnum \<Rightarrow> jsnum \<Rightarrow> (error + AnyToken) \<times> PriceCache" where
  "curveFusdtToken env cq cache chain location status address owner symbol decimals balance =
     (let logo = getTokenLogo (catalog env) chain symbol;
          price = jsDiv (parseInt (query_get_virtual_price cq chain address)) (pow10 decimals)
      in (Inr (IsToken
            \<lparr>t_type = type_token, t_chain = chain, t_location = location, t_status = status,
             t_owner = owner, t_symbol = Some ''fUSDTCRV'', t_address = address, t_balance = balance,
             t_price = price, t_logo = logo\<rparr>), cache))"

text \<open>
  \<^verbatim>\<open>addCurveToken\<close>: the branch of the chain, then the comparison of the lowercased address
  with the pools known on that chain; whatever is not identified reaches the fallback. The
  last component of the result is what the function itself writes to the console.
\<close>

definition addCurveToken ::
  "Env \<Rightarrow> CurveQueries \<Rightarrow> PriceCache \<Rightarrow> EVMChain \<Rightarrow> string \<Rightarrow> TokenStatus \<Rightarrow> Address \<Rightarrow> jsnum
     \<Rightarrow> Address \<Rightarrow> (error + AnyToken) \<times> PriceCache \<times> diagnostic list" where
  "addCurveToken env cq cache chain location status address rawBalance owner =
     (let symbol = query_symbol (blockchain env) chain address;
          decimals = parseInt (query_decimals (blockchain env) chain address);
          balance = jsDiv rawBalance (pow10 decimals);
          identified = (\<lambda>r. case r of (token, cache') \<Rightarrow> (token, cache', []))
      in
      if chain = eth then
        (case addCurveTokenEth env cq cache location status address rawBalance owner of
           Some r \<Rightarrow> identified r
         | None \<Rightarrow> unidentifiedCurveToken cache chain location address owner)
      else if chain = poly then
        (if toLowerCase address = toLowerCase ''0xdAD97F7713Ae9437fa9249920eC8507e5FbB23d3'' then
           identified (curveTricryptoToken env cq cache chain location status address owner symbol decimals balance True)
         else if toLowerCase address = toLowerCase ''0xE7a24EF0C5e95Ffb0f6684b813A78F2a3AD7D171'' then
           identified (curveVirtualPriceToken env cq cache chain location status address owner symbol decimals balance)
         else if toLowerCase address = toLowerCase ''0xf8a57c1d3b9629b77b6726a042ca48990A84Fb49'' then
           identified (curvePairToken env cq cache chain location status address owner symbol decimals balance
                         (query_minter cq chain address) (query_underlying_coins cq chain))
         else if toLowerCase address = toLowerCase ''0x600743B1d8A96438bD46836fD34977a00293f6Aa'' then
           identified (curveEurtUsdToken env cq cache chain location status address owner symbol decimals balance)
         else unidentifiedCurveToken cache chain location address owner)
      else if chain = ftm then
        (if toLowerCase address = toLowerCase ''0x27E611FD27b276ACbd5Ffd632E5eAEBEC9761E40'' then
           identified (curvePairToken env cq cache chain location status address owner symbol decimals balance
                         (Some address) (query_coins cq chain))
         else if toLowerCase address = toLowerCase ''0x92D5ebF3593a92888C25C0AbEF126583d4b5312E'' then
           identified (curveFusdtToken env cq cache chain location status address owner symbol decimals balance)
         else if toLowerCase address = toLowerCase ''0x5B5CFE992AdAC0C9D48E05854B2d91C73a003858'' then
           identified (curvePairToken env cq cache chain location status address owner symbol decimals balance
                         (query_minter cq chain address) (query_coins cq chain))
         else if toLowerCase address = toLowerCase ''0x58e57cA18B7A47112b877E31929798Cd3D703b0f'' then
           identified (curveTricryptoToken env cq cache chain location status address owner symbol decimals balance False)
         else if toLowerCase address = toLowerCase ''0xD02a30d33153877BC20e5721ee53DeDEE0422B2F'' then
           identified (curveVirtualPriceToken env cq cache chain location status address owner symbol decimals balance)
         else unidentifiedCurveToken cache chain location address owner)
      else if chain = avax then
        (if toLowerCase address = toLowerCase ''0x1daB6560494B04473A0BE3E7D83CF3Fdf3a51828'' then
           identified (curveTricryptoToken env cq cache chain location status address owner symbol decimals balance True)
         else if toLowerCase address = toLowerCase ''0x1337BedC9D22ecbe766dF105c9623922A27963EC'' then
           identified (curveVirtualPriceToken env cq cache chain location status address owner symbol decimals balance)
         else if toLowerCase address = toLowerCase ''0xC2b1DF84112619D190193E48148000e3990Bf627'' then
           identified (curvePairToken env cq cache chain location status address owner symbol decimals balance
                         (query_minter cq chain address) (query_underlying_coins cq chain))
         else unidentifiedCurveToken cache chain location address owner)
      else unidentifiedCurveToken cache chain location address owner)"

section \<open>The project balance dispatcher and the project handlers\<close>

text \<open>
  \<^verbatim>\<open>getProjectBalance\<close>. The table \<^verbatim>\<open>projects\<close> and the modules under
  \<^verbatim>\<open>./projects\<close> are configuration: \<open>projects chain\<close> is the list of known names and
  \<open>dapps chain project\<close> the \<^verbatim>\<open>get\<close> of the imported module, \<open>None\<close> when there is no
  such module (the import then rejects). A handler gives its balance or throws, together
  with what it wrote to the console.
\<close>

definition invalidProjectMessage :: "EVMChain \<Rightarrow> string \<Rightarrow> string" where
  "invalidProjectMessage chain project =
     ''Invalid Project Queried: '' @ project @ '' (Chain: '' @ toUpperCase (chainName chain) @ '')''"

definition getProjectBalance ::
  "(EVMChain \<Rightarrow> string list) \<Rightarrow>
   (EVMChain \<Rightarrow> string \<Rightarrow> (Address \<Rightarrow> (error + AnyToken list) \<times> diagnostic list) option) \<Rightarrow>
   EVMChain \<Rightarrow> Address \<Rightarrow> string \<Rightarrow> (error + AnyToken list) \<times> diagnostic list" where
  "getProjectBalance projects dapps chain wallet project =
     (let projectBalance = [] in
      if project \<in> set (projects chain) then
        (case dapps chain project of
           None \<Rightarrow> (Inl ImportError, [])
         | Some get \<Rightarrow>
             (case get wallet of
                (Inl e, out) \<Rightarrow> (Inl e, out)
              | (Inr balance, out) \<Rightarrow> (Inr (projectBalance @ balance), out)))
      else (Inr projectBalance, [ConsoleWarn (invalidProjectMessage chain project)]))"

text \<open>
  The \<^verbatim>\<open>get\<close> of a project handler is a \<^verbatim>\<open>try\<close> block of statements
  \<^verbatim>\<open>balance.push(...(await step(wallet)))\<close>, a \<^verbatim>\<open>catch\<close> that writes one line to the
  console, and \<^verbatim>\<open>return balance\<close>. A step gives the positions it found or throws; the
  argument of \<^verbatim>\<open>push\<close> is evaluated first, so a step that throws pushes nothing and the
  statements after it do not run. \<open>tryBlock\<close> runs the statements in order from the
  balance pushed so far; its second component tells whether the block threw.
\<close>

fun tryBlock ::
  "(Address \<Rightarrow> error + AnyToken list) list \<Rightarrow> Address \<Rightarrow> AnyToken list \<Rightarrow> AnyToken list \<times> bool" where
  "tryBlock [] wallet balance = (balance, False)"
| "tryBlock (step # rest) wallet balance =
     (case step wallet of
        Inl e \<Rightarrow> (balance, True)
      | Inr found \<Rightarrow> tryBlock rest wallet (balance @ found))"

definition handlerErrorMessage :: "string \<Rightarrow> EVMChain \<Rightarrow> string" where
  "handlerErrorMessage project chain =
     ''Error fetching '' @ project @ '' balances on '' @ toUpperCase (chainName chain) @ ''.''"

definition handlerGet ::
  "string \<Rightarrow> EVMChain \<Rightarrow> (Address \<Rightarrow> error + AnyToken list) list \<Rightarrow> Address
     \<Rightarrow> AnyToken list \<times> diagnostic list" where
  "handlerGet project chain steps wallet =
     (case tryBlock steps wallet [] of
        (balance, threw) \<Rightarrow>
          (balance, if threw then [ConsoleError (handlerErrorMessage project chain)] else []))"

text \<open>
  The handler of Iron on Polygon and the handlers of PoolTogether on Polygon and on
  Ethereum. Their steps are arguments: what a step does to find its positions plays no part
  in what \<^verbatim>\<open>get\<close> does with its outcome.
\<close>

definition iron_get ::
  "(Address \<Rightarrow> error + AnyToken list) \<Rightarrow> (Address \<Rightarrow> error + AnyToken list) \<Rightarrow>
   (Address \<Rightarrow> error + AnyToken list) \<Rightarrow> (Address \<Rightarrow> error + AnyToken list) \<Rightarrow>
   Address \<Rightarrow> AnyToken list \<times> diagnostic list" where
  "iron_get getFarmBalances getMarketBalances getMarketRewards getStakedICE wallet =
     handlerGet ''iron'' poly [getFarmBalances, getMarketBalances, getMarketRewards, getStakedICE] wallet"

definition pooltogether_poly_get ::
  "(Address \<Rightarrow> error + AnyToken list) \<Rightarrow> Address \<Rightarrow> AnyToken list \<times> diagnostic list" where
  "pooltogether_poly_get getPoolBalanceV4 wallet =
     handlerGet ''pooltogether'' poly [getPoolBalanceV4] wallet"

definition pooltogether_eth_get ::
  "(Address \<Rightarrow> error + AnyToken list) \<Rightarrow> Address \<Rightarrow> AnyToken list \<times> diagnostic list" where
  "pooltogether_eth_get getPoolBalanceV4 wallet =
     handlerGet ''pooltogether'' eth [getPoolBalanceV4] wallet"

section \<open>An example environment\<close>

text \<open>
  A small catalog, chain and price source, used to run the functions on concrete inputs.
  On \<^verbatim>\<open>avax\<close> the catalog tracks xJOE (under the address of the xJOE contract) and JOE.
  On the chain there are: a project token \<open>0xC0\<close> with 6 decimals; a pair \<open>0xA0\<close> of the
  tokens \<open>0xA1\<close> (18 decimals) and \<open>0xA2\<close> (6 decimals) with a total supply of 4 shares;
  a pair \<open>0xB0\<close> of the same tokens whose total supply is 0; the JOE and xJOE contracts,
  with no xJOE minted; and a vault \<open>0xD0\<close> with a pool \<open>0xD1\<close> that has no tokens, a
  pool \<open>0xD2\<close> of two tokens whose share token \<open>0xE2\<close> has a total supply of 0, and a
  pool \<open>0xD3\<close> of three tokens whose share token \<open>0xE3\<close> has a total supply of 0.
\<close>

definition xjoeAddress :: Address where
  "xjoeAddress = ''0x57319d41F71E81F3c65F2a47CA4e001EbAFd4F33''"

definition joeAddress :: Address where
  "joeAddress = ''0x6e84a6216eA6dACC71eE8E6b0a5B7322EEbC0fDd''"

definition noTokens :: ChainTokenData where
  "noTokens = \<lparr>ctd_tokens = [], ctd_logos = []\<rparr>"

definition exampleCatalog :: Catalog where
  "exampleCatalog =
     \<lparr>eth_data = noTokens, bsc_data = noTokens, poly_data = noTokens, ftm_data = noTokens,
      avax_data =
        \<lparr>ctd_tokens =
           [\<lparr>td_symbol = ''xJOE'', td_address = xjoeAddress, td_decimals = Num 18, td_logo = ''xjoe.png''\<rparr>,
            \<lparr>td_symbol = ''JOE'', td_address = joeAddress, td_decimals = Num 18, td_logo = ''joe.png''\<rparr>],
         ctd_logos = []\<rparr>,
      one_data = noTokens, cronos_data = noTokens\<rparr>"

definition exampleChain :: Blockchain where
  "exampleChain =
     \<lparr>query_symbol = (\<lambda>c a.
        if a = ''0xC0'' then Some ''PRJ''
        else if a = ''0xA0'' \<or> a = ''0xB0'' then Some ''UNI-V2''
        else if a = ''0xA1'' then Some ''WETH''
        else if a = ''0xA2'' then Some ''USDC''
        else if a = xjoeAddress then Some ''xJOE''
        else if a = joeAddress then Some ''JOE''
        else if a = ''0xE3'' then Some ''B-POOL''
        else if a = ''0xE2'' then Some ''B-PAIR''
        else None),
      query_decimals = (\<lambda>c a.
        if a = ''0xC0'' \<or> a = ''0xA2'' then Some 6
        else if a = ''0xA0'' \<or> a = ''0xB0'' \<or> a = ''0xA1'' \<or> a = xjoeAddress \<or> a = joeAddress
                \<or> a = ''0xE3'' \<or> a = ''0xE2'' then Some 18
        else None),
      query_totalSupply = (\<lambda>c a.
        if a = ''0xA0'' then Some 4000000000000000000
        else if a = ''0xB0'' \<or> a = xjoeAddress \<or> a = ''0xE3'' \<or> a = ''0xE2'' then Some 0
        else None),
      query_balanceOf = (\<lambda>c a holder.
        if a = joeAddress \<and> holder = xjoeAddress then Some 0 else None),
      query_getReserves = (\<lambda>c a.
        if a = ''0xA0'' then Some (2000000000000000000, 6000000)
        else if a = ''0xB0'' then Some (0, 0)
        else None),
      query_token0 = (\<lambda>c a. if a = ''0xA0'' \<or> a = ''0xB0'' then Some ''0xA1'' else None),
      query_token1 = (\<lambda>c a. if a = ''0xA0'' \<or> a = ''0xB0'' then Some ''0xA2'' else None),
      query_getPoolTokens = (\<lambda>c vault poolID.
        if vault = ''0xD0'' \<and> poolID = ''0xD1'' then Some ([], [])
        else if vault = ''0xD0'' \<and> poolID = ''0xD2'' then Some ([''0xA1'', ''0xA2''], [5, 7])
        else if vault = ''0xD0'' \<and> poolID = ''0xD3'' then Some ([''0xA1'', ''0xA2'', ''0xC0''], [5, 7, 9])
        else None)\<rparr>"

definition examplePrices :: "EVMChain \<Rightarrow> Address option \<Rightarrow> jsnum \<Rightarrow> jsnum" where
  "examplePrices c a d = (if a = Some ''0xA1'' then Num 2000 else Num 1)"

definition exampleEnv :: Env where
  "exampleEnv = \<lparr>catalog = exampleCatalog, blockchain = exampleChain, priceSource = examplePrices\<rparr>"

definition emptyCache :: PriceCache where
  "emptyCache = (\<lambda>key. None)"

definition examplePosition :: AnyToken where
  "examplePosition =
     IsToken \<lparr>t_type = type_token, t_chain = poly, t_location = ''iron'', t_status = unclaimed,
       t_owner = ''0x5f'', t_symbol = Some ''ICE'',
       t_address = ''0x4A81f8796e0c6Ad4877A51C86693B0dE8093F2ef'',
       t_balance = Num 3, t_price = Num 1, t_logo = defaultTokenLogo\<rparr>"

text \<open>A contract call that decodes to the number 0 on every attempt, whatever the endpoint:
  \<^verbatim>\<open>decimals\<close> of a token with no decimals.\<close>

definition decodesToZero :: "nat \<Rightarrow> URL option \<Rightarrow> jsval attempt" where
  "decodesToZero t u = Returns (JNumber 0)"

section \<open>Binary64 arithmetic\<close>





text \<open>
  The operators with the rounding of a finite result as an argument \<open>fl\<close>: with
  \<open>fl = Num\<close> they are the exact operators above, with \<open>fl = toDouble\<close> the operators of
  JavaScript. The cases of the special values are the same. \<^verbatim>\<open>10 ** decimals\<close> is taken
  as correctly rounded (it is exact up to \<^verbatim>\<open>10 ** 22\<close>), and so is the conversion of the
  decimal string of a BigNumber to a number.
\<close>

fun jsDivWith :: "(real \<Rightarrow> jsnum) \<Rightarrow> jsnum \<Rightarrow> jsnum \<Rightarrow> jsnum" where
  "jsDivWith fl NaN b = NaN"
| "jsDivWith fl a NaN = NaN"
| "jsDivWith fl (Num x) (Num y) =
     (if y \<noteq> 0 then fl (x / y)
      else if x = 0 then NaN
      else if 0 < x then Infinity else NegInfinity)"
| "jsDivWith fl (Num x) Infinity = Num 0"
| "jsDivWith fl (Num x) NegInfinity = Num 0"
| "jsDivWith fl Infinity (Num y) = (if 0 \<le> y then Infinity else NegInfinity)"
| "jsDivWith fl NegInfinity (Num y) = (if 0 \<le> y then NegInfinity else Infinity)"
| "jsDivWith fl Infinity Infinity = NaN"
| "jsDivWith fl Infinity NegInfinity = NaN"
| "jsDivWith fl NegInfinity Infinity = NaN"
| "jsDivWith fl NegInfinity NegInfinity = NaN"

fun jsMulWith :: "(real \<Rightarrow> jsnum) \<Rightarrow> jsnum \<Rightarrow> jsnum \<Rightarrow> jsnum" where
  "jsMulWith fl NaN b = NaN"
| "jsMulWith fl a NaN = NaN"
| "jsMulWith fl (Num x) (Num y) = fl (x * y)"
| "jsMulWith fl (Num x) Infinity = (if x = 0 then NaN else if 0 < x then Infinity else NegInfinity)"
| "jsMulWith fl (Num x) NegInfinity = (if x = 0 then NaN else if 0 < x then NegInfinity else Infinity)"
| "jsMulWith fl Infinity (Num y) = (if y = 0 then NaN else if 0 < y then Infinity else NegInfinity)"
| "jsMulWith fl NegInfinity (Num y) = (if y = 0 then NaN else if 0 < y then NegInfinity else Infinity)"
| "jsMulWith fl Infinity Infinity = Infinity"
| "jsMulWith fl Infinity NegInfinity = NegInfinity"
| "jsMulWith fl NegInfinity Infinity = NegInfinity"
| "jsMulWith fl NegInfinity NegInfinity = Infinity"

fun pow10With :: "(real \<Rightarrow> jsnum) \<Rightarrow> jsnum \<Rightarrow> jsnum" where
  "pow10With fl (Num x) = fl (10 powr x)"
| "pow10With fl Infinity = Infinity"
| "pow10With fl NegInfinity = Num 0"
| "pow10With fl NaN = NaN"

definition parseIntWith :: "(real \<Rightarrow> jsnum) \<Rightarrow> nat option \<Rightarrow> jsnum" where
  "parseIntWith fl v = (case v of None \<Rightarrow> NaN | Some n \<Rightarrow> fl (real n))"

definition toNumberWith :: "(real \<Rightarrow> jsnum) \<Rightarrow> nat option \<Rightarrow> jsnum" where
  "toNumberWith fl v = (case v of None \<Rightarrow> NaN | Some n \<Rightarrow> fl (real n))"

text \<open>
  \<^verbatim>\<open>addLPToken\<close> and its block for a paired token, with the arithmetic as an argument:
  the text of \<open>pairedTokenInfo\<close> and of \<open>addLPToken\<close> with every operator replaced by
  the one that takes \<open>fl\<close>.
\<close>

definition pairedTokenInfoWith ::
  "(real \<Rightarrow> jsnum) \<Rightarrow> Blockchain \<Rightarrow> EVMChain \<Rightarrow> Address option \<Rightarrow> TokenData option
     \<Rightarrow> error + (string option \<times> jsnum)" where
  "pairedTokenInfoWith fl q chain addressN trackedTokenN =
     (case trackedTokenN of
        Some tk \<Rightarrow> Inr (Some (td_symbol tk), td_decimals tk)
      | None \<Rightarrow>
          (case addressN of
             Some a \<Rightarrow> Inr (query_symbol q chain a, parseIntWith fl (query_decimals q chain a))
           | None \<Rightarrow> (if chain = poly then Inl TypeError else Inr (None, parseIntWith fl None))))"

definition addLPTokenWith ::
  "(real \<Rightarrow> jsnum) \<Rightarrow> Env \<Rightarrow> PriceCache \<Rightarrow> EVMChain \<Rightarrow> string \<Rightarrow> TokenStatus \<Rightarrow> Address \<Rightarrow> jsnum
     \<Rightarrow> Address \<Rightarrow> (error + LPToken) \<times> PriceCache" where
  "addLPTokenWith fl env cache chain location status address rawBalance owner =
     (let symbol = query_symbol (blockchain env) chain address;
          decimals = parseIntWith fl (query_decimals (blockchain env) chain address);
          balance = jsDivWith fl rawBalance (pow10With fl decimals);
          lpTokenReserves = query_getReserves (blockchain env) chain address;
          lpTokenSupply = jsDivWith fl (toNumberWith fl (query_totalSupply (blockchain env) chain address))
                            (pow10With fl decimals);
          address0 = query_token0 (blockchain env) chain address;
          address1 = query_token1 (blockchain env) chain address
      in
      case getTrackedTokenInfoOf (catalog env) chain address0 of
        Inl e \<Rightarrow> (Inl e, cache)
      | Inr trackedToken0 \<Rightarrow>
      (case getTrackedTokenInfoOf (catalog env) chain address1 of
        Inl e \<Rightarrow> (Inl e, cache)
      | Inr trackedToken1 \<Rightarrow>
      (case pairedTokenInfoWith fl (blockchain env) chain address0 trackedToken0 of
        Inl e \<Rightarrow> (Inl e, cache)
      | Inr (symbol0, decimals0) \<Rightarrow>
      (case pairedTokenInfoWith fl (blockchain env) chain address1 trackedToken1 of
        Inl e \<Rightarrow> (Inl e, cache)
      | Inr (symbol1, decimals1) \<Rightarrow>
      (case lpTokenReserves of
        None \<Rightarrow> (Inl TypeError, cache)
      | Some (reserve0, reserve1) \<Rightarrow>
          (let supply0 = jsDivWith fl (toNumberWith fl (Some reserve0)) (pow10With fl decimals0);
               supply1 = jsDivWith fl (toNumberWith fl (Some reserve1)) (pow10With fl decimals1)
           in
           case getTokenPrice (priceSource env) cache chain address0 decimals0 of
             (price0, cache0) \<Rightarrow>
           (let token0 = \<lparr>pt_symbol = symbol0, pt_address = address0,
                          pt_balance = jsMulWith fl supply0 (jsDivWith fl balance lpTokenSupply),
                          pt_price = price0, pt_logo = getTokenLogo (catalog env) chain symbol0\<rparr>
            in
            case getTokenPrice (priceSource env) cache0 chain address1 decimals1 of
              (price1, cache1) \<Rightarrow>
            (let token1 = \<lparr>pt_symbol = symbol1, pt_address = address1,
                           pt_balance = jsMulWith fl supply1 (jsDivWith fl balance lpTokenSupply),
                           pt_price = price1, pt_logo = getTokenLogo (catalog env) chain symbol1\<rparr>
             in (Inr \<lparr>t_type = type_lpToken, t_chain = chain, t_location = location,
                      t_status = status, t_owner = owner, t_symbol = symbol, t_address = address,
                      t_balance = balance, t_token0 = token0, t_token1 = token1\<rparr>, cache1)))))))))"



section \<open>Properties of the query executor\<close>

lemma queryLoop_throw:
  assumes "\<not> truthy (result s)" "errors s < maxQueryRetries"
    and "call (attempts s) (nthOpt rpcs (rpcID s)) = Throws"
  shows "queryLoop chain address method args rpcs call s =
         queryLoop chain address method args rpcs call
           (onCatch chain address method args rpcs (s\<lparr>attempts := Suc (attempts s)\<rparr>))"
  using assms by (subst queryLoop.simps) simp

lemma queryLoop_return:
  assumes "\<not> truthy (result s)" "errors s < maxQueryRetries"
    and "call (attempts s) (nthOpt rpcs (rpcID s)) = Returns v"
  shows "queryLoop chain address method args rpcs call s =
         queryLoop chain address method args rpcs call (s\<lparr>result := v, attempts := Suc (attempts s)\<rparr>)"
  using assms by (subst queryLoop.simps) simp

lemma queryLoop_exit:
  assumes "truthy (result s) \<or> \<not> errors s < maxQueryRetries"
  shows "queryLoop chain address method args rpcs call s = Some s"
  using assms by (subst queryLoop.simps) auto

text \<open>Failing on the remaining j endpoints of the current pass.\<close>
lemma queryLoop_fail_within_pass:
  assumes "\<forall>t u. call t u = Throws" "\<not> truthy (result s)" "errors s < maxQueryRetries"
    and "rpcID s + j < length rpcs"
  shows "queryLoop chain address method args rpcs call s =
         queryLoop chain address method args rpcs call
           (s\<lparr>rpcID := rpcID s + j, attempts := attempts s + j\<rparr>)"
  using assms
proof (induction j arbitrary: s)
  case 0
  then show ?case by simp
next
  case (Suc j)
  have "queryLoop chain address method args rpcs call s =
        queryLoop chain address method args rpcs call
           (onCatch chain address method args rpcs (s\<lparr>attempts := Suc (attempts s)\<rparr>))"
    using Suc.prems by (intro queryLoop_throw) auto
  also have "onCatch chain address method args rpcs (s\<lparr>attempts := Suc (attempts s)\<rparr>)
      = s\<lparr>rpcID := Suc (rpcID s), attempts := Suc (attempts s)\<rparr>"
    using Suc.prems by (simp add: onCatch_def Let_def)
  also have "queryLoop chain address method args rpcs call \<dots> =
     queryLoop chain address method args rpcs call
       ((s\<lparr>rpcID := Suc (rpcID s), attempts := Suc (attempts s)\<rparr>)
          \<lparr>rpcID := rpcID (s\<lparr>rpcID := Suc (rpcID s), attempts := Suc (attempts s)\<rparr>) + j,
           attempts := attempts (s\<lparr>rpcID := Suc (rpcID s), attempts := Suc (attempts s)\<rparr>) + j\<rparr>)"
    using Suc.prems by (intro Suc.IH) auto
  finally show ?case by simp
qed

text \<open>A whole failing pass, started at endpoint 0.\<close>
lemma queryLoop_fail_pass:
  assumes "\<forall>t u. call t u = Throws" "\<not> truthy (result s)" "errors s < maxQueryRetries"
    and "rpcID s = 0" "rpcs \<noteq> []"
  shows "queryLoop chain address method args rpcs call s =
         queryLoop chain address method args rpcs call
           (onCatch chain address method args rpcs
              (s\<lparr>rpcID := length rpcs - 1, attempts := attempts s + length rpcs\<rparr>))"
proof -
  let ?s1 = "s\<lparr>rpcID := rpcID s + (length rpcs - 1), attempts := attempts s + (length rpcs - 1)\<rparr>"
  have "queryLoop chain address method args rpcs call s =
        queryLoop chain address method args rpcs call ?s1"
    using assms by (intro queryLoop_fail_within_pass) auto
  also have "\<dots> = queryLoop chain address method args rpcs call
           (onCatch chain address method args rpcs (?s1\<lparr>attempts := Suc (attempts ?s1)\<rparr>))"
    using assms by (intro queryLoop_throw) auto
  also have "?s1\<lparr>attempts := Suc (attempts ?s1)\<rparr> =
     s\<lparr>rpcID := length rpcs - 1, attempts := attempts s + length rpcs\<rparr>"
    using assms by simp
  finally show ?thesis .
qed

text \<open>
  Claim C1. For a chain with a non-empty endpoint list of length N and a method that fails on
  every attempt, \<^verbatim>\<open>query\<close> returns (it does not diverge and does not raise), its result is
  \<^verbatim>\<open>undefined\<close>, the \<^verbatim>\<open>try\<close> block has run exactly N * 3 times, and the console holds
  exactly one diagnostic, or none when the (chain, address) pair is in \<open>ignoredErrors\<close>.
\<close>

theorem query_exhausts_retries:
  assumes "rpcs \<noteq> []" and "\<forall>t u. call t u = Throws"
  shows "query chain address method args rpcs call =
         Some \<lparr>result = JUndefined, errors = 3, rpcID = length rpcs, attempts = length rpcs * 3,
               console = (if isIgnored chain address then []
                          else [ConsoleError (queryErrorMessage chain address method args)])\<rparr>"
proof -
  let ?L = "queryLoop chain address method args rpcs call"
  let ?n = "length rpcs"
  have n: "0 < ?n" using assms(1) by simp
  let ?s0 = "\<lparr>result = JUndefined, errors = 0, rpcID = 0, attempts = 0, console = []\<rparr>"
  let ?s1 = "\<lparr>result = JUndefined, errors = 1, rpcID = 0, attempts = ?n, console = []\<rparr>"
  let ?s2 = "\<lparr>result = JUndefined, errors = 2, rpcID = 0, attempts = ?n * 2, console = []\<rparr>"
  let ?s3 = "\<lparr>result = JUndefined, errors = 3, rpcID = ?n, attempts = ?n * 3,
               console = (if isIgnored chain address then []
                          else [ConsoleError (queryErrorMessage chain address method args)])\<rparr>"
  have "?L ?s0 = ?L (onCatch chain address method args rpcs
              (?s0\<lparr>rpcID := ?n - 1, attempts := attempts ?s0 + ?n\<rparr>))"
    using assms by (intro queryLoop_fail_pass) (auto simp: maxQueryRetries_def)
  also have "\<dots> = ?L ?s1"
    using n by (simp add: onCatch_def Let_def maxQueryRetries_def eval_nat_numeral add.assoc)
  also have "\<dots> = ?L (onCatch chain address method args rpcs
              (?s1\<lparr>rpcID := ?n - 1, attempts := attempts ?s1 + ?n\<rparr>))"
    using assms by (intro queryLoop_fail_pass) (auto simp: maxQueryRetries_def)
  also have "\<dots> = ?L ?s2"
    using n by (simp add: onCatch_def Let_def maxQueryRetries_def eval_nat_numeral add.assoc)
  also have "\<dots> = ?L (onCatch chain address method args rpcs
              (?s2\<lparr>rpcID := ?n - 1, attempts := attempts ?s2 + ?n\<rparr>))"
    using assms by (intro queryLoop_fail_pass) (auto simp: maxQueryRetries_def)
  also have "\<dots> = ?L ?s3"
    using n by (simp add: onCatch_def Let_def maxQueryRetries_def eval_nat_numeral add.assoc)
  also have "\<dots> = Some ?s3"
    by (intro queryLoop_exit) (simp add: maxQueryRetries_def)
  finally show ?thesis by (simp add: query_def)
qed

theorem query_exhausts_retries_witness:
  "query poly ''0xAb'' ''symbol'' [] [''https://a'', ''https://b''] (\<lambda>t u. Throws) =
     Some \<lparr>result = JUndefined, errors = 3, rpcID = 2, attempts = 6,
           console = [ConsoleError ''Error Calling symbol() on 0xAb (Chain: POLY)'']\<rparr>
   \<and> query poly ''0x8AAa5e259f74c8114e0a471d9f2adfc66bfe09ed'' ''symbol'' [] [''https://a''] (\<lambda>t u. Throws) =
     Some \<lparr>result = JUndefined, errors = 3, rpcID = 1, attempts = 3, console = []\<rparr>"
  using query_exhausts_retries [of "[''https://a'', ''https://b'']" "\<lambda>t u. Throws" poly "''0xAb''" "''symbol''" "[]"]
        query_exhausts_retries [of "[''https://a'']" "\<lambda>t u. Throws" poly "''0x8AAa5e259f74c8114e0a471d9f2adfc66bfe09ed''" "''symbol''" "[]"]
  by (simp add: isIgnored_def ignoredErrors_def toLowerCase_def lowerChar_def
        queryErrorMessage_def toUpperCase_def upperChar_def chainName_def)


text \<open>
  The endpoint list of a chain is not meant to be empty. If it were, the loop would still
  run the \<^verbatim>\<open>try\<close> block three times, on the \<^verbatim>\<open>undefined\<close> endpoint.
\<close>

lemma query_without_endpoints:
  assumes "\<forall>t u. call t u = Throws"
  shows "query chain address method args [] call =
         Some \<lparr>result = JUndefined, errors = 3, rpcID = 1, attempts = 3,
               console = (if isIgnored chain address then []
                          else [ConsoleError (queryErrorMessage chain address method args)])\<rparr>"
proof -
  let ?L = "queryLoop chain address method args [] call"
  let ?s0 = "\<lparr>result = JUndefined, errors = 0, rpcID = 0, attempts = 0, console = []\<rparr>"
  let ?s1 = "\<lparr>result = JUndefined, errors = 1, rpcID = 0, attempts = 1, console = []\<rparr>"
  let ?s2 = "\<lparr>result = JUndefined, errors = 2, rpcID = 0, attempts = 2, console = []\<rparr>"
  let ?s3 = "\<lparr>result = JUndefined, errors = 3, rpcID = 1, attempts = 3,
               console = (if isIgnored chain address then []
                          else [ConsoleError (queryErrorMessage chain address method args)])\<rparr>"
  have "?L ?s0 = ?L (onCatch chain address method args [] (?s0\<lparr>attempts := Suc (attempts ?s0)\<rparr>))"
    using assms by (intro queryLoop_throw) (auto simp: maxQueryRetries_def)
  also have "\<dots> = ?L ?s1"
    by (simp add: onCatch_def Let_def maxQueryRetries_def)
  also have "\<dots> = ?L (onCatch chain address method args [] (?s1\<lparr>attempts := Suc (attempts ?s1)\<rparr>))"
    using assms by (intro queryLoop_throw) (auto simp: maxQueryRetries_def)
  also have "\<dots> = ?L ?s2"
    by (simp add: onCatch_def Let_def maxQueryRetries_def eval_nat_numeral)
  also have "\<dots> = ?L (onCatch chain address method args [] (?s2\<lparr>attempts := Suc (attempts ?s2)\<rparr>))"
    using assms by (intro queryLoop_throw) (auto simp: maxQueryRetries_def)
  also have "\<dots> = ?L ?s3"
    by (simp add: onCatch_def Let_def maxQueryRetries_def eval_nat_numeral)
  also have "\<dots> = Some ?s3"
    by (intro queryLoop_exit) (simp add: maxQueryRetries_def)
  finally show ?thesis by (simp add: query_def)
qed

text \<open>k failing attempts on the first k endpoints, then the next attempt decodes.\<close>
lemma query_returns_truthy:
  assumes "k < length rpcs" and "\<forall>t<k. \<forall>u. call t u = Throws"
    and "call k (Some (rpcs ! k)) = Returns v" and "truthy v"
  shows "query chain address method args rpcs call =
         Some \<lparr>result = v, errors = 0, rpcID = k, attempts = Suc k, console = []\<rparr>"
proof -
  let ?L = "queryLoop chain address method args rpcs call"
  have pre: "j \<le> k \<Longrightarrow> ?L \<lparr>result = JUndefined, errors = 0, rpcID = 0, attempts = 0, console = []\<rparr> =
        ?L \<lparr>result = JUndefined, errors = 0, rpcID = j, attempts = j, console = []\<rparr>" for j
  proof (induction j)
    case 0
    then show ?case by simp
  next
    case (Suc j)
    let ?s = "\<lparr>result = JUndefined, errors = 0, rpcID = j, attempts = j, console = []\<rparr>"
    have "?L ?s = ?L (onCatch chain address method args rpcs (?s\<lparr>attempts := Suc (attempts ?s)\<rparr>))"
      using Suc.prems assms(2) by (intro queryLoop_throw) (auto simp: maxQueryRetries_def)
    also have "onCatch chain address method args rpcs (?s\<lparr>attempts := Suc (attempts ?s)\<rparr>) =
       \<lparr>result = JUndefined, errors = 0, rpcID = Suc j, attempts = Suc j, console = []\<rparr>"
      using Suc.prems assms(1) by (simp add: onCatch_def Let_def)
    finally show ?case using Suc by simp
  qed
  let ?s = "\<lparr>result = JUndefined, errors = 0, rpcID = k, attempts = k, console = []\<rparr>"
  have "?L ?s = ?L (?s\<lparr>result := v, attempts := Suc (attempts ?s)\<rparr>)"
    using assms by (intro queryLoop_return) (auto simp: maxQueryRetries_def nthOpt_def)
  also have "\<dots> = Some (?s\<lparr>result := v, attempts := Suc (attempts ?s)\<rparr>)"
    using assms(4) by (intro queryLoop_exit) simp
  finally show ?thesis using pre [of k] by (simp add: query_def)
qed

text \<open>
  A decoded value that is falsy leaves \<^verbatim>\<open>!result\<close> true: neither counter moves and the
  same endpoint is called again. If every call decodes to such a value the loop never ends.
\<close>
lemma queryLoop_falsy_diverges:
  assumes "queryLoop chain address method args rpcs call s = Some y"
  shows "\<not> ((\<forall>t u. \<exists>v. call t u = Returns v \<and> \<not> truthy v) \<and> \<not> truthy (result s)
            \<and> errors s < maxQueryRetries)"
proof (rule queryLoop.raw_induct
    [where P = "\<lambda>chain address method args rpcs call s y.
       \<not> ((\<forall>t u. \<exists>v. call t u = Returns v \<and> \<not> truthy v) \<and> \<not> truthy (result s)
            \<and> errors s < maxQueryRetries)", OF _ assms])
  fix f :: "EVMChain \<Rightarrow> Address \<Rightarrow> string \<Rightarrow> string list \<Rightarrow> URL list
      \<Rightarrow> (nat \<Rightarrow> URL option \<Rightarrow> jsval attempt) \<Rightarrow> queryState \<Rightarrow> queryState option"
  fix chain address mth as rpcs call s y
  assume IH: "\<And>chain address mth as rpcs call s y.
      f chain address mth as rpcs call s = Some y \<Longrightarrow>
      \<not> ((\<forall>t u. \<exists>v. call t u = Returns v \<and> \<not> truthy v) \<and> \<not> truthy (result s)
            \<and> errors s < maxQueryRetries)"
  assume eq: "(if \<not> truthy (result s) \<and> errors s < maxQueryRetries then
        (case call (attempts s) (nthOpt rpcs (rpcID s)) of
           Throws \<Rightarrow>
             f chain address mth as rpcs call
               (onCatch chain address mth as rpcs (s\<lparr>attempts := Suc (attempts s)\<rparr>))
         | Returns v \<Rightarrow>
             f chain address mth as rpcs call
               (s\<lparr>result := v, attempts := Suc (attempts s)\<rparr>))
      else Some s) = Some y"
  show "\<not> ((\<forall>t u. \<exists>v. call t u = Returns v \<and> \<not> truthy v) \<and> \<not> truthy (result s)
            \<and> errors s < maxQueryRetries)"
  proof
    assume h: "(\<forall>t u. \<exists>v. call t u = Returns v \<and> \<not> truthy v) \<and> \<not> truthy (result s)
            \<and> errors s < maxQueryRetries"
    then obtain v where v: "call (attempts s) (nthOpt rpcs (rpcID s)) = Returns v" "\<not> truthy v"
      by blast
    with h eq have "f chain address mth as rpcs call
        (s\<lparr>result := v, attempts := Suc (attempts s)\<rparr>) = Some y"
      by simp
    from IH [OF this] h v show False by simp
  qed
qed

text \<open>
  Claim C2 says that any decoded value, a zero or empty one included, is returned at once.
  The code does so for truthy values only (\<open>query_returns_truthy\<close>). Reading
  \<^verbatim>\<open>decimals\<close> of a token with 0 decimals decodes to the number 0 on every attempt, and
  \<^verbatim>\<open>query\<close> then never returns.
\<close>

theorem query_zero_decimals_never_returns:
  "query eth ''0x00'' ''decimals'' [] [''https://rpc''] decodesToZero = None"
proof (cases "query eth ''0x00'' ''decimals'' [] [''https://rpc''] decodesToZero")
  case None
  then show ?thesis .
next
  case (Some y)
  then show ?thesis
    using queryLoop_falsy_diverges [of eth "''0x00''" "''decimals''" "[]" "[''https://rpc'']"
        decodesToZero "\<lparr>result = JUndefined, errors = 0, rpcID = 0, attempts = 0, console = []\<rparr>" y]
    by (simp add: query_def maxQueryRetries_def decodesToZero_def)
qed

section \<open>Properties of the dispatcher and the handlers\<close>

text \<open>
  Claim C7. For every chain and every project name that is not in the chain's list of
  projects, \<^verbatim>\<open>getProjectBalance\<close> returns the empty array (it does not raise) and writes
  one warning to the console.
\<close>

theorem getProjectBalance_unknown_project:
  assumes "project \<notin> set (projects chain)"
  shows "getProjectBalance projects dapps chain wallet project =
         (Inr [], [ConsoleWarn (invalidProjectMessage chain project)])"
  using assms by (simp add: getProjectBalance_def)

theorem getProjectBalance_unknown_project_witness:
  "''lostworlds'' \<notin> set ((\<lambda>c. [''iron'', ''pooltogether'']) avax)
   \<and> getProjectBalance (\<lambda>c. [''iron'', ''pooltogether'']) (\<lambda>c p. None) avax ''0x5f5b'' ''lostworlds'' =
       (Inr [], [ConsoleWarn ''Invalid Project Queried: lostworlds (Chain: AVAX)''])"
  using getProjectBalance_unknown_project
    [of "''lostworlds''" "\<lambda>c. [''iron'', ''pooltogether'']" avax "\<lambda>c p. None" "''0x5f5b''"]
  by (simp add: invalidProjectMessage_def toUpperCase_def upperChar_def chainName_def)

lemma tryBlock_completed_then_throw:
  assumes "\<forall>s \<in> set completed. \<exists>found. s wallet = Inr found" and "failing wallet = Inl e"
  shows "tryBlock (completed @ failing # rest) wallet balance =
         (balance @ concat (map (\<lambda>s. projr (s wallet)) completed), True)"
  using assms by (induction completed arbitrary: balance) auto

lemma tryBlock_all_completed:
  assumes "\<forall>s \<in> set steps. \<exists>found. s wallet = Inr found"
  shows "tryBlock steps wallet balance =
         (balance @ concat (map (\<lambda>s. projr (s wallet)) steps), False)"
  using assms by (induction steps arbitrary: balance) auto

text \<open>
  Claim C5. When the steps before the failing one have completed and the failing step
  throws, \<^verbatim>\<open>get\<close> returns (so nothing is propagated to the caller) exactly the positions
  of the completed steps, in order, and writes one error to the console. This holds for the
  handler of Iron, whose steps are the farm balances, the market balances, the market rewards
  and the staked ICE, and for the two handlers of PoolTogether, whose only step is the V4
  pool balance.
\<close>

theorem handler_keeps_accumulated_positions:
  assumes "[getFarmBalances, getMarketBalances, getMarketRewards, getStakedICE]
             = completed @ failing # rest"
    and "\<forall>s \<in> set completed. \<exists>found. s wallet = Inr found"
    and "failing wallet = Inl e"
    and "getPoolBalanceV4 wallet = Inl e'"
  shows "iron_get getFarmBalances getMarketBalances getMarketRewards getStakedICE wallet =
           (concat (map (\<lambda>s. projr (s wallet)) completed),
            [ConsoleError (handlerErrorMessage ''iron'' poly)])
       \<and> pooltogether_poly_get getPoolBalanceV4 wallet =
           ([], [ConsoleError (handlerErrorMessage ''pooltogether'' poly)])
       \<and> pooltogether_eth_get getPoolBalanceV4 wallet =
           ([], [ConsoleError (handlerErrorMessage ''pooltogether'' eth)])"
proof -
  have "tryBlock [getFarmBalances, getMarketBalances, getMarketRewards, getStakedICE] wallet [] =
        ([] @ concat (map (\<lambda>s. projr (s wallet)) completed), True)"
    unfolding assms(1) using assms(2,3) by (rule tryBlock_completed_then_throw)
  then have "iron_get getFarmBalances getMarketBalances getMarketRewards getStakedICE wallet =
           (concat (map (\<lambda>s. projr (s wallet)) completed),
            [ConsoleError (handlerErrorMessage ''iron'' poly)])"
    by (simp add: iron_get_def handlerGet_def)
  moreover have "pooltogether_poly_get getPoolBalanceV4 wallet =
           ([], [ConsoleError (handlerErrorMessage ''pooltogether'' poly)])"
    using assms(4) by (simp add: pooltogether_poly_get_def handlerGet_def)
  moreover have "pooltogether_eth_get getPoolBalanceV4 wallet =
           ([], [ConsoleError (handlerErrorMessage ''pooltogether'' eth)])"
    using assms(4) by (simp add: pooltogether_eth_get_def handlerGet_def)
  ultimately show ?thesis by simp
qed

theorem handler_keeps_accumulated_positions_witness:
  "iron_get (\<lambda>w. Inr [examplePosition]) (\<lambda>w. Inl TypeError) (\<lambda>w. Inr []) (\<lambda>w. Inr []) ''0x5f'' =
     ([examplePosition], [ConsoleError ''Error fetching iron balances on POLY.''])
   \<and> pooltogether_poly_get (\<lambda>w. Inl TypeError) ''0x5f'' =
     ([], [ConsoleError ''Error fetching pooltogether balances on POLY.''])
   \<and> pooltogether_eth_get (\<lambda>w. Inl TypeError) ''0x5f'' =
     ([], [ConsoleError ''Error fetching pooltogether balances on ETH.''])"
  using handler_keeps_accumulated_positions
    [where getFarmBalances = "\<lambda>w. Inr [examplePosition]" and getMarketBalances = "\<lambda>w. Inl TypeError"
       and getMarketRewards = "\<lambda>w. Inr []" and getStakedICE = "\<lambda>w. Inr []"
       and completed = "[\<lambda>w. Inr [examplePosition]]" and failing = "\<lambda>w. Inl TypeError"
       and rest = "[\<lambda>w. Inr [], \<lambda>w. Inr []]" and wallet = "''0x5f''" and e = TypeError
       and ?getPoolBalanceV4.0 = "\<lambda>w. Inl TypeError" and e' = TypeError]
  by (simp add: handlerErrorMessage_def toUpperCase_def upperChar_def chainName_def)

section \<open>Properties of the valuation engine\<close>

lemma powr10_nat [simp]: "(10::real) powr real d = 10 ^ d"
  by (simp add: powr_realpow)

lemmas example_defs = exampleEnv_def exampleCatalog_def exampleChain_def examplePrices_def
  emptyCache_def noTokens_def xjoeAddress_def joeAddress_def

lemmas catalog_defs = getTrackedTokenInfo_def getChainTokenData_def getTokenLogo_def
  getTrackedTokenInfoOf_def toLowerCase_def lowerChar_def defaultAddress_def

lemmas engine_defs = addToken_def addLPToken_def pairedTokenInfo_def addTraderJoeToken_def
  addXToken_def addBalancerLikeToken_def addTrackedToken_def addDebtToken_def
  parseInt_def toNumber_def getTokenPrice_def Let_def nthOpt_def



lemma jsDiv_zero_not_finite: "\<not> isFinite (jsDiv a (Num 0))"
  by (cases a) simp_all

lemma jsDiv_NaN_not_finite: "\<not> isFinite (jsDiv a NaN)"
  by (cases a) simp_all

lemma jsMul_not_finite: "\<not> isFinite b \<Longrightarrow> \<not> isFinite (jsMul a b)"
  by (cases a; cases b) simp_all

lemma jsDiv_not_finite: "\<not> isFinite a \<Longrightarrow> \<not> isFinite (jsDiv a b)"
  by (cases a; cases b) simp_all

lemma zero_over_pow10: "jsDiv (Num 0) (pow10 (parseInt v)) = Num 0 \<or> jsDiv (Num 0) (pow10 (parseInt v)) = NaN"
  by (cases v) (simp_all add: parseInt_def)

lemma jsDiv_zero_supply_not_finite: "\<not> isFinite (jsDiv a (jsDiv (Num 0) (pow10 (parseInt v))))"
  using zero_over_pow10 [of v] jsDiv_zero_not_finite [of a] jsDiv_NaN_not_finite [of a] by auto

lemma pairedTokenInfo_with_address:
  "\<exists>sym dec. pairedTokenInfo q chain (Some a) tracked = Inr (sym, dec)"
  by (cases tracked) (simp_all add: pairedTokenInfo_def)

lemma addLPToken_zero_supply:
  assumes "query_totalSupply (blockchain env) chain pair = Some 0"
    and "query_getReserves (blockchain env) chain pair = Some (R0, R1)"
    and "query_token0 (blockchain env) chain pair = Some a0"
    and "query_token1 (blockchain env) chain pair = Some a1"
  shows "\<exists>lp. fst (addLPToken env cache chain location status pair rawBalance owner) = Inr lp
            \<and> \<not> isFinite (pt_balance (t_token0 lp)) \<and> \<not> isFinite (pt_balance (t_token1 lp))"
proof -
  obtain s0 d0 where p0: "pairedTokenInfo (blockchain env) chain (Some a0)
      (getTrackedTokenInfo (catalog env) chain a0) = Inr (s0, d0)"
    using pairedTokenInfo_with_address by blast
  obtain s1 d1 where p1: "pairedTokenInfo (blockchain env) chain (Some a1)
      (getTrackedTokenInfo (catalog env) chain a1) = Inr (s1, d1)"
    using pairedTokenInfo_with_address by blast
  obtain price0 cache0 where g0:
    "getTokenPrice (priceSource env) cache chain (Some a0) d0 = (price0, cache0)"
    by (cases "getTokenPrice (priceSource env) cache chain (Some a0) d0")
  obtain price1 cache1 where g1:
    "getTokenPrice (priceSource env) cache0 chain (Some a1) d1 = (price1, cache1)"
    by (cases "getTokenPrice (priceSource env) cache0 chain (Some a1) d1")
  show ?thesis
    by (simp add: addLPToken_def getTrackedTokenInfoOf_def toNumber_def Let_def assms p0 p1 g0 g1
          jsMul_not_finite jsDiv_zero_supply_not_finite)
qed

lemma addTraderJoeToken_zero_supply:
  assumes "query_totalSupply (blockchain env) chain ''0x57319d41F71E81F3c65F2a47CA4e001EbAFd4F33'' = Some 0"
  shows "\<not> isFinite (pt_balance (x_underlyingToken
               (fst (addTraderJoeToken env cache chain location status rawBalance owner))))"
proof -
  have "\<not> isFinite (jsMul rawBalance (jsDiv joeStaked (parseInt (Some 0))))" for joeStaked
    by (simp add: parseInt_def jsMul_not_finite jsDiv_zero_not_finite)
  then have nf: "\<not> isFinite (jsDiv (jsMul rawBalance (jsDiv joeStaked (parseInt (Some 0)))) dec)"
    for joeStaked dec
    by (rule jsDiv_not_finite)
  show ?thesis
    by (simp add: addTraderJoeToken_def addXToken_def Let_def assms nf split: prod.splits option.splits)
qed

lemma addBalancerLikeToken_zero_supply:
  assumes "query_totalSupply (blockchain env) chain pool = Some 0"
    and "query_getPoolTokens (blockchain env) chain vault poolID = Some (poolTokens, poolBalances)"
    and "2 < length poolTokens"
  shows "\<exists>tk. fst (addBalancerLikeToken env cache chain location status pool rawBalance owner poolID vault)
                  = Inr (IsToken tk) \<and> \<not> isFinite (t_price tk)"
proof -
  obtain priceSum cache' where sp:
    "sumPoolPrices env chain poolTokens poolBalances [0..<length poolTokens] (Num 0, cache) = (priceSum, cache')"
    by (cases "sumPoolPrices env chain poolTokens poolBalances [0..<length poolTokens] (Num 0, cache)")
  have nf: "\<not> isFinite (jsDiv priceSum (jsDiv (parseInt (Some 0)) (pow10 (parseInt v))))" for v
    using jsDiv_zero_supply_not_finite [of priceSum v] by (simp add: parseInt_def)
  show ?thesis
    using assms(3) by (simp add: addBalancerLikeToken_def Let_def assms(1,2) sp nf)
qed

lemma addBalancerLikeToken_pair_zero_supply:
  assumes "query_totalSupply (blockchain env) chain pool = Some 0"
    and "query_getPoolTokens (blockchain env) chain vault poolID = Some (poolTokens, poolBalances)"
    and "length poolTokens = 2"
  shows "\<exists>lp. fst (addBalancerLikeToken env cache chain location status pool rawBalance owner poolID vault)
                  = Inr (IsLPToken lp)
            \<and> \<not> isFinite (pt_balance (t_token0 lp)) \<and> \<not> isFinite (pt_balance (t_token1 lp))"
proof -
  have "\<not> isFinite (jsMul reserve (jsDiv balance (parseInt (Some 0))))" for reserve balance
    by (simp add: parseInt_def jsMul_not_finite jsDiv_zero_not_finite)
  then have nf: "\<not> isFinite (jsDiv (jsMul reserve (jsDiv balance (parseInt (Some 0)))) dec)"
    for reserve balance dec
    by (rule jsDiv_not_finite)
  show ?thesis
    using assms(3) by (simp add: addBalancerLikeToken_def Let_def assms(1,2) nf split: prod.splits)
qed

text \<open>
  Claim C3 says that division by a supply is guarded: a zero supply gives balance 0 or price
  0, and no NaN or Infinity reaches a returned token. It fails on \<^verbatim>\<open>addLPToken\<close> for a
  pair whose total supply is 0 and a holder with raw balance 0: \<^verbatim>\<open>balance / lpTokenSupply\<close>
  is 0 / 0, and both constituent balances of the returned token are NaN.
\<close>

theorem zero_supply_gives_NaN:
  "fst (addLPToken exampleEnv emptyCache poly ''iron'' staked ''0xB0'' (Num 0) ''0x5f'') =
     Inr \<lparr>t_type = type_lpToken, t_chain = poly, t_location = ''iron'', t_status = staked,
          t_owner = ''0x5f'', t_symbol = Some ''UNI-V2'', t_address = ''0xB0'', t_balance = Num 0,
          t_token0 = \<lparr>pt_symbol = Some ''WETH'', pt_address = Some ''0xA1'', pt_balance = NaN,
                       pt_price = Num 2000, pt_logo = defaultTokenLogo\<rparr>,
          t_token1 = \<lparr>pt_symbol = Some ''USDC'', pt_address = Some ''0xA2'', pt_balance = NaN,
                       pt_price = Num 1, pt_logo = defaultTokenLogo\<rparr>\<rparr>"
  by (simp add: engine_defs example_defs catalog_defs)

text \<open>
  Claim C3 as amended. \<^verbatim>\<open>addLPToken\<close>, \<^verbatim>\<open>addTraderJoeToken\<close> and
  \<^verbatim>\<open>addBalancerLikeToken\<close> do not guard their division by a supply. With a total LP
  supply of 0, both constituent balances of the token \<^verbatim>\<open>addLPToken\<close> returns are NaN or
  an infinity; with an xJOE supply of 0, so is the underlying balance of the token
  \<^verbatim>\<open>addTraderJoeToken\<close> returns; and with a share supply of 0, so are the price of the
  token \<^verbatim>\<open>addBalancerLikeToken\<close> returns for a pool of three or more assets and both
  constituent balances of the token it returns for a pool of two assets. In each case the
  function returns its token (it does not raise), for every raw balance.
\<close>

theorem zero_supply_not_guarded:
  assumes "query_totalSupply (blockchain env) chain pair = Some 0"
    and "query_getReserves (blockchain env) chain pair = Some (R0, R1)"
    and "query_token0 (blockchain env) chain pair = Some a0"
    and "query_token1 (blockchain env) chain pair = Some a1"
    and "query_totalSupply (blockchain env) chain ''0x57319d41F71E81F3c65F2a47CA4e001EbAFd4F33'' = Some 0"
    and "query_totalSupply (blockchain env) chain pool = Some 0"
    and "query_getPoolTokens (blockchain env) chain vault poolID = Some (poolTokens, poolBalances)"
    and "2 < length poolTokens"
    and "query_totalSupply (blockchain env) chain pool2 = Some 0"
    and "query_getPoolTokens (blockchain env) chain vault2 poolID2 = Some (poolTokens2, poolBalances2)"
    and "length poolTokens2 = 2"
  shows "(\<exists>lp. fst (addLPToken env cache chain location status pair rawBalance owner) = Inr lp
            \<and> \<not> isFinite (pt_balance (t_token0 lp)) \<and> \<not> isFinite (pt_balance (t_token1 lp)))
       \<and> \<not> isFinite (pt_balance (x_underlyingToken
               (fst (addTraderJoeToken env cache chain location status rawBalance owner))))
       \<and> (\<exists>tk. fst (addBalancerLikeToken env cache chain location status pool rawBalance owner poolID vault)
                  = Inr (IsToken tk) \<and> \<not> isFinite (t_price tk))
       \<and> (\<exists>lp. fst (addBalancerLikeToken env cache chain location status pool2 rawBalance owner poolID2 vault2)
                  = Inr (IsLPToken lp)
            \<and> \<not> isFinite (pt_balance (t_token0 lp)) \<and> \<not> isFinite (pt_balance (t_token1 lp)))"
  by (intro conjI addLPToken_zero_supply [OF assms(1-4)] addTraderJoeToken_zero_supply [OF assms(5)]
      addBalancerLikeToken_zero_supply [OF assms(6-8)]
      addBalancerLikeToken_pair_zero_supply [OF assms(9-11)])

theorem zero_supply_not_guarded_witness:
  "(\<exists>lp. fst (addLPToken exampleEnv emptyCache avax ''farm'' staked ''0xB0'' (Num 0) ''0x5f'') = Inr lp
            \<and> \<not> isFinite (pt_balance (t_token0 lp)) \<and> \<not> isFinite (pt_balance (t_token1 lp)))
       \<and> \<not> isFinite (pt_balance (x_underlyingToken
               (fst (addTraderJoeToken exampleEnv emptyCache avax ''farm'' staked (Num 0) ''0x5f''))))
       \<and> (\<exists>tk. fst (addBalancerLikeToken exampleEnv emptyCache avax ''farm'' staked ''0xE3'' (Num 0) ''0x5f'' ''0xD3'' ''0xD0'')
                  = Inr (IsToken tk) \<and> \<not> isFinite (t_price tk))
       \<and> (\<exists>lp. fst (addBalancerLikeToken exampleEnv emptyCache avax ''farm'' staked ''0xE2'' (Num 0) ''0x5f'' ''0xD2'' ''0xD0'')
                  = Inr (IsLPToken lp)
            \<and> \<not> isFinite (pt_balance (t_token0 lp)) \<and> \<not> isFinite (pt_balance (t_token1 lp)))"
proof (rule zero_supply_not_guarded)
  show "query_totalSupply (blockchain exampleEnv) avax ''0xB0'' = Some 0"
    by (simp add: example_defs)
  show "query_getReserves (blockchain exampleEnv) avax ''0xB0'' = Some (0, 0)"
    by (simp add: example_defs)
  show "query_token0 (blockchain exampleEnv) avax ''0xB0'' = Some ''0xA1''"
    by (simp add: example_defs)
  show "query_token1 (blockchain exampleEnv) avax ''0xB0'' = Some ''0xA2''"
    by (simp add: example_defs)
  show "query_totalSupply (blockchain exampleEnv) avax ''0x57319d41F71E81F3c65F2a47CA4e001EbAFd4F33'' = Some 0"
    by (simp add: example_defs)
  show "query_totalSupply (blockchain exampleEnv) avax ''0xE3'' = Some 0"
    by (simp add: example_defs)
  show "query_getPoolTokens (blockchain exampleEnv) avax ''0xD0'' ''0xD3'' = Some ([''0xA1'', ''0xA2'', ''0xC0''], [5, 7, 9])"
    by (simp add: example_defs)
  show "2 < length [''0xA1'', ''0xA2'', ''0xC0'']"
    by simp
  show "query_totalSupply (blockchain exampleEnv) avax ''0xE2'' = Some 0"
    by (simp add: example_defs)
  show "query_getPoolTokens (blockchain exampleEnv) avax ''0xD0'' ''0xD2'' = Some ([''0xA1'', ''0xA2''], [5, 7])"
    by (simp add: example_defs)
  show "length [''0xA1'', ''0xA2''] = 2"
    by simp
qed

text \<open>
  The fallback of \<^verbatim>\<open>addCurveToken\<close>. An address is not identified on \<^verbatim>\<open>eth\<close> when the
  registry lists fewer than two underlying coins for it, on \<^verbatim>\<open>poly\<close>, \<^verbatim>\<open>ftm\<close> and
  \<^verbatim>\<open>avax\<close> when it is none of the pools the branch of the chain compares it with, and
  always on the other chains. The function then returns the placeholder token and writes
  one warning to the console.
\<close>

lemma addCurveToken_unidentified_warns:
  assumes "chain = eth \<longrightarrow>
             (\<exists>pool coins reserves.
                query_get_pool_from_lp_token cq eth ''0x90E00ACe148ca3b23Ac1bC8C240C2a7Dd9c2d7f5'' address = Some pool
              \<and> query_get_underlying_coins cq eth ''0x90E00ACe148ca3b23Ac1bC8C240C2a7Dd9c2d7f5'' pool = Some coins
              \<and> query_get_underlying_balances cq eth ''0x90E00ACe148ca3b23Ac1bC8C240C2a7Dd9c2d7f5'' pool = Some reserves
              \<and> length (filter (\<lambda>tk. tk \<noteq> zero) coins) < 2)"
    and "chain = poly \<longrightarrow> toLowerCase address \<notin>
           toLowerCase ` {''0xdAD97F7713Ae9437fa9249920eC8507e5FbB23d3'', ''0xE7a24EF0C5e95Ffb0f6684b813A78F2a3AD7D171'',
                         ''0xf8a57c1d3b9629b77b6726a042ca48990A84Fb49'', ''0x600743B1d8A96438bD46836fD34977a00293f6Aa''}"
    and "chain = ftm \<longrightarrow> toLowerCase address \<notin>
           toLowerCase ` {''0x27E611FD27b276ACbd5Ffd632E5eAEBEC9761E40'', ''0x92D5ebF3593a92888C25C0AbEF126583d4b5312E'',
                         ''0x5B5CFE992AdAC0C9D48E05854B2d91C73a003858'', ''0x58e57cA18B7A47112b877E31929798Cd3D703b0f'',
                         ''0xD02a30d33153877BC20e5721ee53DeDEE0422B2F''}"
    and "chain = avax \<longrightarrow> toLowerCase address \<notin>
           toLowerCase ` {''0x1daB6560494B04473A0BE3E7D83CF3Fdf3a51828'', ''0x1337BedC9D22ecbe766dF105c9623922A27963EC'',
                         ''0xC2b1DF84112619D190193E48148000e3990Bf627''}"
  shows "addCurveToken env cq cache chain location status address rawBalance owner =
           (Inr (IsToken \<lparr>t_type = type_token, t_chain = chain, t_location = location,
                           t_status = none, t_owner = owner, t_symbol = Some ''???'',
                           t_address = address, t_balance = Num 0, t_price = Num 0,
                           t_logo = defaultTokenLogo\<rparr>),
            cache, [ConsoleWarn (''Unidentified Curve Token: '' @ address)])"
proof (cases chain)
  case eth
  with assms(1) obtain pool coins reserves where r:
    "query_get_pool_from_lp_token cq eth ''0x90E00ACe148ca3b23Ac1bC8C240C2a7Dd9c2d7f5'' address = Some pool"
    "query_get_underlying_coins cq eth ''0x90E00ACe148ca3b23Ac1bC8C240C2a7Dd9c2d7f5'' pool = Some coins"
    "query_get_underlying_balances cq eth ''0x90E00ACe148ca3b23Ac1bC8C240C2a7Dd9c2d7f5'' pool = Some reserves"
    "length (filter (\<lambda>tk. tk \<noteq> zero) coins) < 2"
    by blast
  have "addCurveTokenEth env cq cache location status address rawBalance owner = None"
    using r by (simp add: addCurveTokenEth_def Let_def)
  then show ?thesis
    using eth by (simp add: addCurveToken_def unidentifiedCurveToken_def Let_def)
next
  case bsc
  then show ?thesis by (simp add: addCurveToken_def unidentifiedCurveToken_def Let_def)
next
  case poly
  then show ?thesis using assms(2) by (simp add: addCurveToken_def unidentifiedCurveToken_def Let_def)
next
  case ftm
  then show ?thesis using assms(3) by (simp add: addCurveToken_def unidentifiedCurveToken_def Let_def)
next
  case avax
  then show ?thesis using assms(4) by (simp add: addCurveToken_def unidentifiedCurveToken_def Let_def)
next
  case one
  then show ?thesis by (simp add: addCurveToken_def unidentifiedCurveToken_def Let_def)
next
  case cronos
  then show ?thesis by (simp add: addCurveToken_def unidentifiedCurveToken_def Let_def)
qed

text \<open>
  Claim C6 says that the fallback of \<^verbatim>\<open>addBalancerLikeToken\<close> emits a diagnostic too. For
  a pool with fewer than two tokens, which is neither of the two shapes the function
  decomposes, the function returns the placeholder token (symbol \<^verbatim>\<open>???\<close>, balance 0,
  price 0) and leaves the price cache as it was, but it writes nothing to the console: the
  \<^verbatim>\<open>console.warn\<close> that the fallback of \<^verbatim>\<open>addCurveToken\<close> has
  (\<open>addCurveToken_unidentified_warns\<close>) is missing here.
\<close>

theorem addBalancerLikeToken_placeholder_is_silent:
  assumes "query_getPoolTokens (blockchain env) chain vault poolID = Some (poolTokens, poolBalances)"
    and "length poolTokens < 2"
  shows "addBalancerLikeToken env cache chain location status address rawBalance owner poolID vault =
           (Inr (IsToken \<lparr>t_type = type_token, t_chain = chain, t_location = location,
                           t_status = none, t_owner = owner, t_symbol = Some ''???'',
                           t_address = address, t_balance = Num 0, t_price = Num 0,
                           t_logo = defaultTokenLogo\<rparr>),
            cache, [])"
  using assms by (simp add: addBalancerLikeToken_def Let_def)

theorem addBalancerLikeToken_placeholder_is_silent_witness:
  "addBalancerLikeToken exampleEnv emptyCache eth ''balancer'' staked ''0xE3'' (Num 5) ''0x5f'' ''0xD1'' ''0xD0'' =
           (Inr (IsToken \<lparr>t_type = type_token, t_chain = eth, t_location = ''balancer'',
                           t_status = none, t_owner = ''0x5f'', t_symbol = Some ''???'',
                           t_address = ''0xE3'', t_balance = Num 0, t_price = Num 0,
                           t_logo = defaultTokenLogo\<rparr>),
            emptyCache, [])"
proof (rule addBalancerLikeToken_placeholder_is_silent)
  show "query_getPoolTokens (blockchain exampleEnv) eth ''0xD0'' ''0xD1'' = Some ([], [])"
    by (simp add: example_defs)
  show "length ([] :: Address list) < 2" by simp
qed



section \<open>Repeating a call\<close>

lemma getTokenPrice_stored:
  assumes "getTokenPrice source cache chain address decimals = (price, cache')"
  shows "cache' (chain, map_option toLowerCase address) = Some price"
  using assms by (auto simp: getTokenPrice_def Let_def split: option.splits)

lemma getTokenPrice_keeps:
  assumes "getTokenPrice source cache chain address decimals = (price, cache')"
    and "cache key = Some p"
  shows "cache' key = Some p"
  using assms by (auto simp: getTokenPrice_def Let_def split: option.splits)

lemma getTokenPrice_hit:
  assumes "cache (chain, map_option toLowerCase address) = Some price"
  shows "getTokenPrice source cache chain address decimals = (price, cache)"
  using assms by (simp add: getTokenPrice_def Let_def)

lemma getTokenPrice_again:
  assumes "getTokenPrice source cache chain address decimals = (price, cache')"
  shows "getTokenPrice source cache' chain address decimals = (price, cache')"
  using getTokenPrice_stored [OF assms] by (rule getTokenPrice_hit)

lemma addToken_again:
  "fst (addToken env (snd (addToken env cache chain location status address rawBalance owner))
          chain location status address rawBalance owner)
   = fst (addToken env cache chain location status address rawBalance owner)"
proof -
  obtain symbol decimals logo where r:
    "(if toLowerCase address = defaultAddress then
           (let symbol = getNativeTokenSymbol chain
            in (Some symbol, Num 18, getTokenLogo (catalog env) chain (Some symbol)))
         else
           (case getTrackedTokenInfo (catalog env) chain address of
              Some tk \<Rightarrow> (Some (td_symbol tk), td_decimals tk, td_logo tk)
            | None \<Rightarrow>
                (let symbol = query_symbol (blockchain env) chain address;
                     decimals = parseInt (query_decimals (blockchain env) chain address)
                 in (symbol, decimals, getTokenLogo (catalog env) chain symbol))))
     = (symbol, decimals, logo)"
    using prod_cases3 by blast
  obtain price cache' where g:
    "getTokenPrice (priceSource env) cache chain (Some address) decimals = (price, cache')"
    by (cases "getTokenPrice (priceSource env) cache chain (Some address) decimals")
  show ?thesis
    unfolding addToken_def r using g getTokenPrice_again [OF g] by (simp add: Let_def)
qed

lemma addDebtToken_again:
  "fst (addDebtToken env (snd (addDebtToken env cache chain location address rawBalance owner))
          chain location address rawBalance owner)
   = fst (addDebtToken env cache chain location address rawBalance owner)"
proof -
  obtain symbol decimals logo where r:
    "(if toLowerCase address = defaultAddress then
           (let symbol = getNativeTokenSymbol chain
            in (Some symbol, Num 18, getTokenLogo (catalog env) chain (Some symbol)))
         else
           (case getTrackedTokenInfo (catalog env) chain address of
              Some tk \<Rightarrow> (Some (td_symbol tk), td_decimals tk, td_logo tk)
            | None \<Rightarrow>
                (let symbol = query_symbol (blockchain env) chain address;
                     decimals = parseInt (query_decimals (blockchain env) chain address)
                 in (symbol, decimals, getTokenLogo (catalog env) chain symbol))))
     = (symbol, decimals, logo)"
    using prod_cases3 by blast
  obtain price cache' where g:
    "getTokenPrice (priceSource env) cache chain (Some address) decimals = (price, cache')"
    by (cases "getTokenPrice (priceSource env) cache chain (Some address) decimals")
  show ?thesis
    unfolding addDebtToken_def r using g getTokenPrice_again [OF g] by (simp add: Let_def)
qed

lemma addXToken_again:
  "fst (addXToken env (snd (addXToken env cache chain location status address rawBalance owner
                              underlyingAddress underlyingRawBalance))
          chain location status address rawBalance owner underlyingAddress underlyingRawBalance)
   = fst (addXToken env cache chain location status address rawBalance owner
            underlyingAddress underlyingRawBalance)"
proof -
  obtain underlyingSymbol underlyingDecimals underlyingLogo where r:
    "(case getTrackedTokenInfo (catalog env) chain address of
           Some tk \<Rightarrow> (Some (td_symbol tk), td_decimals tk, td_logo tk)
         | None \<Rightarrow>
             (let underlyingSymbol = query_symbol (blockchain env) chain underlyingAddress;
                  underlyingDecimals = parseInt (query_decimals (blockchain env) chain underlyingAddress)
              in (underlyingSymbol, underlyingDecimals,
                  getTokenLogo (catalog env) chain underlyingSymbol)))
     = (underlyingSymbol, underlyingDecimals, underlyingLogo)"
    using prod_cases3 by blast
  obtain price cache' where g:
    "getTokenPrice (priceSource env) cache chain (Some underlyingAddress) underlyingDecimals = (price, cache')"
    by (cases "getTokenPrice (priceSource env) cache chain (Some underlyingAddress) underlyingDecimals")
  show ?thesis
    unfolding addXToken_def r using g getTokenPrice_again [OF g] by (simp add: Let_def)
qed

lemma addLPToken_again:
  "fst (addLPToken env (snd (addLPToken env cache chain location status address rawBalance owner))
          chain location status address rawBalance owner)
   = fst (addLPToken env cache chain location status address rawBalance owner)"
proof -
  let ?a0 = "query_token0 (blockchain env) chain address"
  let ?a1 = "query_token1 (blockchain env) chain address"
  show ?thesis
  proof (cases "getTrackedTokenInfoOf (catalog env) chain ?a0")
    case (Inl e)
    then show ?thesis by (simp add: addLPToken_def Let_def)
  next
    case t0: (Inr trackedToken0)
    show ?thesis
    proof (cases "getTrackedTokenInfoOf (catalog env) chain ?a1")
      case (Inl e)
      then show ?thesis using t0 by (simp add: addLPToken_def Let_def)
    next
      case t1: (Inr trackedToken1)
      show ?thesis
      proof (cases "pairedTokenInfo (blockchain env) chain ?a0 trackedToken0")
        case (Inl e)
        then show ?thesis using t0 t1 by (simp add: addLPToken_def Let_def)
      next
        case (Inr sd0)
        then obtain symbol0 decimals0 where p0:
          "pairedTokenInfo (blockchain env) chain ?a0 trackedToken0 = Inr (symbol0, decimals0)"
          by (cases sd0) simp
        show ?thesis
        proof (cases "pairedTokenInfo (blockchain env) chain ?a1 trackedToken1")
          case (Inl e)
          then show ?thesis using t0 t1 p0 by (simp add: addLPToken_def Let_def)
        next
          case (Inr sd1)
          then obtain symbol1 decimals1 where p1:
            "pairedTokenInfo (blockchain env) chain ?a1 trackedToken1 = Inr (symbol1, decimals1)"
            by (cases sd1) simp
          show ?thesis
          proof (cases "query_getReserves (blockchain env) chain address")
            case None
            then show ?thesis using t0 t1 p0 p1 by (simp add: addLPToken_def Let_def)
          next
            case (Some rs)
            then obtain reserve0 reserve1 where rs:
              "query_getReserves (blockchain env) chain address = Some (reserve0, reserve1)"
              by (cases rs) simp
            obtain price0 cache0 where g0:
              "getTokenPrice (priceSource env) cache chain ?a0 decimals0 = (price0, cache0)"
              by (cases "getTokenPrice (priceSource env) cache chain ?a0 decimals0")
            obtain price1 cache1 where g1:
              "getTokenPrice (priceSource env) cache0 chain ?a1 decimals1 = (price1, cache1)"
              by (cases "getTokenPrice (priceSource env) cache0 chain ?a1 decimals1")
            have "cache1 (chain, map_option toLowerCase ?a0) = Some price0"
              using getTokenPrice_keeps [OF g1 getTokenPrice_stored [OF g0]] .
            then have h0: "getTokenPrice (priceSource env) cache1 chain ?a0 decimals0 = (price0, cache1)"
              by (rule getTokenPrice_hit)
            have h1: "getTokenPrice (priceSource env) cache1 chain ?a1 decimals1 = (price1, cache1)"
              using g1 by (rule getTokenPrice_again)
            show ?thesis
              using t0 t1 p0 p1 rs g0 g1 h0 h1 by (simp add: addLPToken_def Let_def)
          qed
        qed
      qed
    qed
  qed
qed

text \<open>
  Claim C9. Against one and the same environment (catalog, on-chain state and price source),
  a second call of \<^verbatim>\<open>addToken\<close>, \<^verbatim>\<open>addLPToken\<close>, \<^verbatim>\<open>addXToken\<close> or \<^verbatim>\<open>addDebtToken\<close>
  with the arguments of the first, started from the price cache the first call left, returns
  the token (or the error) the first call returned.
\<close>

theorem repeated_call_same_token:
  "fst (addToken env (snd (addToken env cache chain location status address rawBalance owner))
          chain location status address rawBalance owner)
     = fst (addToken env cache chain location status address rawBalance owner)
   \<and> fst (addLPToken env (snd (addLPToken env cache chain location status address rawBalance owner))
          chain location status address rawBalance owner)
     = fst (addLPToken env cache chain location status address rawBalance owner)
   \<and> fst (addXToken env (snd (addXToken env cache chain location status address rawBalance owner
                              underlyingAddress underlyingRawBalance))
          chain location status address rawBalance owner underlyingAddress underlyingRawBalance)
     = fst (addXToken env cache chain location status address rawBalance owner
            underlyingAddress underlyingRawBalance)
   \<and> fst (addDebtToken env (snd (addDebtToken env cache chain location address rawBalance owner))
          chain location address rawBalance owner)
     = fst (addDebtToken env cache chain location address rawBalance owner)"
  by (simp only: addToken_again addLPToken_again addXToken_again addDebtToken_again)

section \<open>Pro-rata shares of a pair\<close>

text \<open>With exact rounding the operators that take the rounding are the exact operators, and
  \<^verbatim>\<open>addLPToken\<close> with them is the function of section \<open>The token valuation engine\<close>.\<close>

lemma jsDivWith_Num: "jsDivWith Num a b = jsDiv a b"
  by (cases a; cases b) simp_all

lemma jsMulWith_Num: "jsMulWith Num a b = jsMul a b"
  by (cases a; cases b) simp_all

lemma pow10With_Num: "pow10With Num a = pow10 a"
  by (cases a) simp_all

lemma parseIntWith_Num: "parseIntWith Num v = parseInt v"
  by (simp add: parseIntWith_def parseInt_def)

lemma toNumberWith_Num: "toNumberWith Num v = toNumber v"
  by (simp add: toNumberWith_def toNumber_def)

lemma pairedTokenInfoWith_Num:
  "pairedTokenInfoWith Num q chain a tracked = pairedTokenInfo q chain a tracked"
  unfolding pairedTokenInfoWith_def pairedTokenInfo_def parseIntWith_Num by (rule refl)

lemma addLPTokenWith_Num:
  "addLPTokenWith Num env cache chain location status address rawBalance owner =
   addLPToken env cache chain location status address rawBalance owner"
  unfolding addLPTokenWith_def addLPToken_def jsDivWith_Num jsMulWith_Num pow10With_Num
    parseIntWith_Num toNumberWith_Num pairedTokenInfoWith_Num
  by (rule refl)

text \<open>
  In exact arithmetic the constituent balances of a pair are the holder's share of the
  reserves, and the ratios \<open>c0 / r0\<close>, \<open>c1 / r1\<close> and \<open>h / S\<close> are equal. This is a
  property of the formula, not of the program, whose arithmetic rounds.
\<close>

lemma addLPToken_exact_pro_rata:
  fixes h S r0 r1 :: real
  assumes "query_decimals (blockchain env) chain address = Some d"
    and "query_totalSupply (blockchain env) chain address = Some T"
    and "query_getReserves (blockchain env) chain address = Some (R0, R1)"
    and "query_token0 (blockchain env) chain address = Some a0"
    and "query_token1 (blockchain env) chain address = Some a1"
    and "pairedTokenInfo (blockchain env) chain (Some a0) (getTrackedTokenInfo (catalog env) chain a0)
           = Inr (s0, Num (real d0))"
    and "pairedTokenInfo (blockchain env) chain (Some a1) (getTrackedTokenInfo (catalog env) chain a1)
           = Inr (s1, Num (real d1))"
    and "h = real b / 10 ^ d" and "S = real T / 10 ^ d" and "0 < S"
    and "r0 = real R0 / 10 ^ d0" and "r1 = real R1 / 10 ^ d1"
  shows "\<exists>lp. fst (addLPToken env cache chain location status address (Num (real b)) owner) = Inr lp
           \<and> t_balance lp = Num h
           \<and> pt_balance (t_token0 lp) = Num (r0 * (h / S))
           \<and> pt_balance (t_token1 lp) = Num (r1 * (h / S))
           \<and> (r0 \<noteq> 0 \<longrightarrow> jsDiv (pt_balance (t_token0 lp)) (Num r0) = Num (h / S))
           \<and> (r1 \<noteq> 0 \<longrightarrow> jsDiv (pt_balance (t_token1 lp)) (Num r1) = Num (h / S))"
proof -
  have T: "T \<noteq> 0" using assms(9,10) by (cases "T = 0") simp_all
  show ?thesis
    using assms(1-7) T
    by (simp add: addLPToken_def getTrackedTokenInfoOf_def parseInt_def toNumber_def Let_def
          assms(8,9,11,12) split: prod.splits)
qed












end
